theory Spec2Isabelle
  imports Main
begin

section \<open>The profile routes of DevConnector (routes/api/profile.js)\<close>

text \<open>
  The handlers of \<^verbatim>\<open>routes/api/profile.js\<close> are embedded as functions from the request and
  the database to an outcome and the new database. The private routes run behind the
  authentication middleware, so their handlers take the identifier of the authenticated
  owner (\<^verbatim>\<open>req.user.id\<close>) as an argument. JavaScript strings are modelled as
  \<open>string\<close>: every \<open>char\<close> is one code unit in the range 0..255. The body of a request,
  and each of the other places of a request that hold named values, is a map from names
  to string values (\<open>None\<close> is an absent name, JavaScript's \<^verbatim>\<open>undefined\<close>).
\<close>

subsection \<open>The JavaScript built-ins the handlers call\<close>

text \<open>\<^verbatim>\<open>if (x)\<close> on a string or \<^verbatim>\<open>undefined\<close>: only the non-empty string is truthy.\<close>

definition truthy :: "string option \<Rightarrow> bool" where
  "truthy v = (case v of None \<Rightarrow> False | Some s \<Rightarrow> s \<noteq> [])"

text \<open>
  \<^verbatim>\<open>String.prototype.split\<close> with a separator of one character: the pieces between the
  separators, in order, empty pieces included; the empty string gives one empty piece.
\<close>

fun split_str :: "char \<Rightarrow> string \<Rightarrow> string list" where
  "split_str sep [] = [[]]"
| "split_str sep (c # cs) =
     (if c = sep then [] # split_str sep cs
      else (case split_str sep cs of
              [] \<Rightarrow> [[c]]
            | t # ts \<Rightarrow> (c # t) # ts))"

text \<open>
  The white space and line terminators of ECMAScript that are code units below 256:
  TAB, LF, VT, FF, CR, SPACE and NO-BREAK SPACE.
\<close>

definition white_space :: "char \<Rightarrow> bool" where
  "white_space c = (c \<in> {CHR 0x09, CHR 0x0A, CHR 0x0B, CHR 0x0C, CHR 0x0D, CHR 0x20, CHR 0xA0})"

text \<open>\<^verbatim>\<open>String.prototype.trim\<close>: the string without its leading and trailing white space.\<close>

definition trim :: "string \<Rightarrow> string" where
  "trim s = rev (dropWhile white_space (rev (dropWhile white_space s)))"

text \<open>
  \<^verbatim>\<open>Array.prototype.indexOf\<close>: the position of the first element equal to the argument,
  \<open>-1\<close> when there is none.
\<close>

fun indexOf :: "'a list \<Rightarrow> 'a \<Rightarrow> int" where
  "indexOf [] x = - 1"
| "indexOf (y # ys) x =
     (if y = x then 0
      else (let i = indexOf ys x in if i < 0 then - 1 else i + 1))"

text \<open>
  \<^verbatim>\<open>Array.prototype.splice(start, deleteCount)\<close> with no inserted items, returning the array
  as it is after the call. A negative \<open>start\<close> counts from the end of the array and is
  clamped at 0, a \<open>start\<close> beyond the end is clamped to the length, and \<open>deleteCount\<close> is
  clamped to what is left after \<open>start\<close>.
\<close>

definition splice_arr :: "'a list \<Rightarrow> int \<Rightarrow> int \<Rightarrow> 'a list" where
  "splice_arr xs start deleteCount =
     (let len = int (length xs);
          actualStart = (if start < 0 then max (len + start) 0 else min start len);
          actualDeleteCount = min (max deleteCount 0) (len - actualStart)
      in take (nat actualStart) xs @ drop (nat (actualStart + actualDeleteCount)) xs)"

text \<open>\<^verbatim>\<open>Array.prototype.unshift\<close> with one item: the item becomes the first element.\<close>

definition unshift :: "'a list \<Rightarrow> 'a \<Rightarrow> 'a list" where
  "unshift xs x = x # xs"

subsection \<open>The documents\<close>

text \<open>
  Modelled from the spec: the schemas \<^verbatim>\<open>models/Profile\<close>, \<^verbatim>\<open>models/User\<close> and
  \<^verbatim>\<open>models/Post\<close> are not among the sources. A Profile has an owner reference, the optional
  strings company, website, location, bio, status and githubusername, the skills (a
  sequence of strings), the social links (a mapping from link names to URLs) and the two
  embedded lists experience and education, whose entries carry a generated identifier.
  Of an account the handlers read the identifier, the name and the avatar; of a post only
  its author.
\<close>

type_synonym obj = "string \<rightharpoonup> string"

text \<open>
  What the handlers and their validators read of a request: \<^verbatim>\<open>req.body\<close>, \<^verbatim>\<open>req.cookies\<close>,
  \<^verbatim>\<open>req.headers\<close>, \<^verbatim>\<open>req.params\<close> and \<^verbatim>\<open>req.query\<close>.
\<close>

record request =
  req_body :: obj
  req_cookies :: obj
  req_headers :: obj
  req_params :: obj
  req_query :: obj

record entry =
  entry_id :: string
  entry_fields :: obj

record profile =
  user :: string
  company :: "string option"
  website :: "string option"
  location :: "string option"
  bio :: "string option"
  status :: "string option"
  githubusername :: "string option"
  skills :: "string list"
  social :: "string \<rightharpoonup> string"
  experience :: "entry list"
  education :: "entry list"

record account =
  account_id :: string
  account_name :: string
  account_avatar :: string

record post =
  post_user :: string
  post_text :: string

record db =
  profiles :: "profile list"
  users :: "account list"
  posts :: "post list"

subsection \<open>The store operations\<close>

text \<open>
  What a store operation throws is a value with a message and the \<^verbatim>\<open>kind\<close> the handlers
  inspect. The environment of a request says which store operations fail during it
  (\<open>fault\<close>), which strings the driver casts to an ObjectId (\<open>castable\<close>), and which
  identifier the driver generates for a new embedded entry (\<open>new_id\<close>). An operation that
  throws leaves the database as it was.
\<close>

record js_error =
  message :: string
  kind :: "string option"

datatype store_op =
    Profile_findOne_op
  | Profile_find_op
  | Profile_findOneAndUpdate_op
  | Profile_save_op
  | Profile_findOneAndRemove_op
  | Post_deleteMany_op
  | User_findOneAndRemove_op

record env =
  fault :: "store_op \<Rightarrow> js_error option"
  castable :: "string \<Rightarrow> bool"
  new_id :: string

definition CastError :: js_error where
  "CastError = \<lparr>message = ''Cast to ObjectId failed'', kind = Some ''ObjectId''\<rparr>"

definition TypeError :: "string \<Rightarrow> js_error" where
  "TypeError m = \<lparr>message = m, kind = None\<rparr>"

text \<open>
  A query that filters on an ObjectId field throws the injected fault if there is one, and
  a cast error when the string it is given is not an ObjectId.
\<close>

definition query_error :: "env \<Rightarrow> store_op \<Rightarrow> string \<Rightarrow> js_error option" where
  "query_error e op oid =
     (case fault e op of
        Some err \<Rightarrow> Some err
      | None \<Rightarrow> if castable e oid then None else Some CastError)"

fun update_first :: "('a \<Rightarrow> bool) \<Rightarrow> ('a \<Rightarrow> 'a) \<Rightarrow> 'a list \<Rightarrow> 'a list" where
  "update_first P f [] = []"
| "update_first P f (x # xs) = (if P x then f x # xs else x # update_first P f xs)"

fun remove_first :: "('a \<Rightarrow> bool) \<Rightarrow> 'a list \<Rightarrow> 'a list" where
  "remove_first P [] = []"
| "remove_first P (x # xs) = (if P x then xs else x # remove_first P xs)"

text \<open>\<^verbatim>\<open>Profile.findOne({ user: id })\<close>: the first profile of that owner, if any.\<close>

definition Profile_findOne :: "env \<Rightarrow> string \<Rightarrow> db \<Rightarrow> js_error + profile option" where
  "Profile_findOne e uid d =
     (case query_error e Profile_findOne_op uid of
        Some err \<Rightarrow> Inl err
      | None \<Rightarrow> Inr (find (\<lambda>p. user p = uid) (profiles d)))"

text \<open>
  \<^verbatim>\<open>populate('user', ['name', 'avatar'])\<close>: the profile together with the name and the
  avatar of the account its owner reference points to, if that account exists.
\<close>

definition populate :: "db \<Rightarrow> profile \<Rightarrow> profile \<times> (string \<times> string) option" where
  "populate d p =
     (p, map_option (\<lambda>u. (account_name u, account_avatar u))
           (find (\<lambda>u. account_id u = user p) (users d)))"

text \<open>\<^verbatim>\<open>Profile.find()\<close>: every profile.\<close>

definition Profile_find :: "env \<Rightarrow> db \<Rightarrow> js_error + profile list" where
  "Profile_find e d =
     (case fault e Profile_find_op of
        Some err \<Rightarrow> Inl err
      | None \<Rightarrow> Inr (profiles d))"

text \<open>
  \<^verbatim>\<open>profile.save()\<close> on a document that \<^verbatim>\<open>findOne\<close> loaded writes the document back in the
  place of the one loaded, the first profile of that owner.
\<close>

definition Profile_save :: "env \<Rightarrow> profile \<Rightarrow> db \<Rightarrow> js_error + db" where
  "Profile_save e p d =
     (case fault e Profile_save_op of
        Some err \<Rightarrow> Inl err
      | None \<Rightarrow> Inr (d\<lparr>profiles := update_first (\<lambda>q. user q = user p) (\<lambda>q. p) (profiles d)\<rparr>))"

text \<open>\<^verbatim>\<open>profile.save()\<close> on a document made by \<^verbatim>\<open>new Profile\<close> inserts it.\<close>

definition Profile_save_new :: "env \<Rightarrow> profile \<Rightarrow> db \<Rightarrow> js_error + db" where
  "Profile_save_new e p d =
     (case fault e Profile_save_op of
        Some err \<Rightarrow> Inl err
      | None \<Rightarrow> Inr (d\<lparr>profiles := profiles d @ [p]\<rparr>))"

text \<open>\<^verbatim>\<open>Profile.findOneAndRemove({ user: id })\<close> removes the first profile of that owner.\<close>

definition Profile_findOneAndRemove :: "env \<Rightarrow> string \<Rightarrow> db \<Rightarrow> js_error + db" where
  "Profile_findOneAndRemove e uid d =
     (case query_error e Profile_findOneAndRemove_op uid of
        Some err \<Rightarrow> Inl err
      | None \<Rightarrow> Inr (d\<lparr>profiles := remove_first (\<lambda>p. user p = uid) (profiles d)\<rparr>))"

text \<open>\<^verbatim>\<open>Post.deleteMany({ user: id })\<close> removes every post of that author.\<close>

definition Post_deleteMany :: "env \<Rightarrow> string \<Rightarrow> db \<Rightarrow> js_error + db" where
  "Post_deleteMany e uid d =
     (case query_error e Post_deleteMany_op uid of
        Some err \<Rightarrow> Inl err
      | None \<Rightarrow> Inr (d\<lparr>posts := filter (\<lambda>p. post_user p \<noteq> uid) (posts d)\<rparr>))"

text \<open>\<^verbatim>\<open>User.findOneAndRemove({ _id: id })\<close> removes the first account with that identifier.\<close>

definition User_findOneAndRemove :: "env \<Rightarrow> string \<Rightarrow> db \<Rightarrow> js_error + db" where
  "User_findOneAndRemove e uid d =
     (case query_error e User_findOneAndRemove_op uid of
        Some err \<Rightarrow> Inl err
      | None \<Rightarrow> Inr (d\<lparr>users := remove_first (\<lambda>u. account_id u = uid) (users d)\<rparr>))"

subsection \<open>Responses and validation\<close>

text \<open>
  A handler either sends a response (a status code and a body) or lets an exception
  escape: the promise of the handler rejects and nothing is sent.
\<close>

datatype req_location = Body | Cookies | Headers | Params | Query

record verror =
  msg :: string
  param :: string
  err_location :: req_location

datatype body =
    Json_profile profile
  | Json_populated "profile \<times> (string \<times> string) option"
  | Json_profiles "(profile \<times> (string \<times> string) option) list"
  | Json_null
  | Json_msg string
  | Json_errors "verror list"
  | Json_parsed string
  | Send string

datatype outcome =
    Response nat body
  | Uncaught js_error

text \<open>
  \<^verbatim>\<open>check(field, message)\<close> of express-validator looks for the field in the body, the
  cookies, the headers, the route parameters and the query of the request, in this order;
  in the headers it looks for the field name in lower case. (The field names of these
  routes have no wildcard.)
\<close>

definition locations :: "req_location list" where
  "locations = [Body, Cookies, Headers, Params, Query]"

fun at_location :: "request \<Rightarrow> req_location \<Rightarrow> obj" where
  "at_location rq Body = req_body rq"
| "at_location rq Cookies = req_cookies rq"
| "at_location rq Headers = req_headers rq"
| "at_location rq Params = req_params rq"
| "at_location rq Query = req_query rq"

text \<open>
  \<^verbatim>\<open>String.prototype.toLowerCase\<close> on code units below 256: the letters A to Z and the
  capital letters of Latin-1 (0xC0 to 0xDE without the multiplication sign 0xD7) move up
  by 32.
\<close>

definition toLowerCase :: "string \<Rightarrow> string" where
  "toLowerCase s =
     map (\<lambda>c. let n = (of_char c :: nat)
              in if (65 \<le> n \<and> n \<le> 90) \<or> (192 \<le> n \<and> n \<le> 222 \<and> n \<noteq> 215)
                 then char_of (n + 32) else c) s"

definition field_path :: "req_location \<Rightarrow> string \<Rightarrow> string" where
  "field_path l field = (if l = Headers then toLowerCase field else field)"

text \<open>
  The instances of a field that are validated: one for every location whose value for the
  field is not \<^verbatim>\<open>undefined\<close>; when no location has the field, the instance of the first
  location, the body, so that there is one to report. An instance is its location, its
  path and its value.
\<close>

definition field_instances ::
  "string \<Rightarrow> request \<Rightarrow> (req_location \<times> string \<times> string option) list" where
  "field_instances field rq =
     (let instances =
            map (\<lambda>l. (l, field_path l field, at_location rq l (field_path l field))) locations;
          withValue = filter (\<lambda>i. snd (snd i) \<noteq> None) instances
      in if withValue \<noteq> [] then withValue else take 1 instances)"

text \<open>\<^verbatim>\<open>isEmpty()\<close>: the value, as a string, has length 0; \<^verbatim>\<open>undefined\<close> becomes the empty string.\<close>

definition isEmpty :: "string option \<Rightarrow> bool" where
  "isEmpty v = (case v of None \<Rightarrow> True | Some s \<Rightarrow> s = [])"

text \<open>
  \<^verbatim>\<open>check(field, message).not().isEmpty()\<close>: every instance of the field must pass, and an
  error entry with the message, the path and the location is made for each one that is
  empty.
\<close>

definition check_not_empty :: "string \<Rightarrow> string \<Rightarrow> request \<Rightarrow> verror list" where
  "check_not_empty field m rq =
     map (\<lambda>i. \<lparr>msg = m, param = fst (snd i), err_location = fst i\<rparr>)
       (filter (\<lambda>i. isEmpty (snd (snd i))) (field_instances field rq))"

text \<open>\<^verbatim>\<open>validationResult(req)\<close>: the entries of all checks of the route, in their order.\<close>

definition validationResult :: "(string \<times> string) list \<Rightarrow> request \<Rightarrow> verror list" where
  "validationResult checks rq = concat (map (\<lambda>(field, m). check_not_empty field m rq) checks)"

definition Server_Error :: outcome where
  "Server_Error = Response 500 (Send ''Server Error'')"

text \<open>
  The catch blocks that call \<^verbatim>\<open>console.err\<close>: \<^verbatim>\<open>console\<close> has no such function, so the
  call throws inside the catch block, before the response is sent.
\<close>

definition console_err :: outcome where
  "console_err = Uncaught (TypeError ''console.err is not a function'')"

subsection \<open>GET api/profile/me\<close>

definition get_me :: "env \<Rightarrow> string \<Rightarrow> db \<Rightarrow> outcome \<times> db" where
  "get_me e uid d =
     (case Profile_findOne e uid d of
        Inl err \<Rightarrow> (Server_Error, d)
      | Inr None \<Rightarrow> (Response 400 (Json_msg ''No profile for this user''), d)
      | Inr (Some p) \<Rightarrow> (Response 200 (Json_populated (populate d p)), d))"

subsection \<open>POST api/profile\<close>

text \<open>
  \<open>profileFields\<close> is the object the handler builds: \<open>None\<close> is a key the object does not
  have. The keys \<open>user\<close> and \<open>social\<close> are always set.
\<close>

record profile_fields =
  pf_user :: string
  pf_company :: "string option"
  pf_website :: "string option"
  pf_location :: "string option"
  pf_bio :: "string option"
  pf_status :: "string option"
  pf_githubusername :: "string option"
  pf_skills :: "string list option"
  pf_social :: "string \<rightharpoonup> string"

definition if_set :: "string option \<Rightarrow> string option" where
  "if_set v = (if truthy v then v else None)"

text \<open>\<^verbatim>\<open>if (youtube) profileFields.social.youtube = youtube\<close>, for any of the link names.\<close>

definition set_link :: "string \<Rightarrow> obj \<Rightarrow> (string \<rightharpoonup> string) \<Rightarrow> (string \<rightharpoonup> string)" where
  "set_link k b m = (if truthy (b k) then m(k := b k) else m)"


definition profileFields :: "string \<Rightarrow> obj \<Rightarrow> profile_fields" where
  "profileFields uid b =
     \<lparr>pf_user = uid,
      pf_company = if_set (b ''company''),
      pf_website = if_set (b ''website''),
      pf_location = if_set (b ''location''),
      pf_bio = if_set (b ''bio''),
      pf_status = if_set (b ''status''),
      pf_githubusername = if_set (b ''githubusername''),
      pf_skills =
        (case b ''skills'' of
           None \<Rightarrow> None
         | Some s \<Rightarrow> if s = [] then None else Some (map trim (split_str CHR '','' s))),
      pf_social =
        set_link ''linkedin'' b (set_link ''instagram'' b (set_link ''twitter'' b
          (set_link ''facebook'' b (set_link ''youtube'' b Map.empty))))\<rparr>"

text \<open>
  \<^verbatim>\<open>{ $set: profileFields }\<close>: every key of \<open>profileFields\<close> replaces the field of that name
  in the document, the other fields of the document stay.
\<close>

definition set_fields :: "profile_fields \<Rightarrow> profile \<Rightarrow> profile" where
  "set_fields f p =
     p\<lparr>user := pf_user f,
       company := (case pf_company f of None \<Rightarrow> company p | Some v \<Rightarrow> Some v),
       website := (case pf_website f of None \<Rightarrow> website p | Some v \<Rightarrow> Some v),
       location := (case pf_location f of None \<Rightarrow> location p | Some v \<Rightarrow> Some v),
       bio := (case pf_bio f of None \<Rightarrow> bio p | Some v \<Rightarrow> Some v),
       status := (case pf_status f of None \<Rightarrow> status p | Some v \<Rightarrow> Some v),
       githubusername :=
         (case pf_githubusername f of None \<Rightarrow> githubusername p | Some v \<Rightarrow> Some v),
       skills := (case pf_skills f of None \<Rightarrow> skills p | Some v \<Rightarrow> v),
       social := pf_social f\<rparr>"

text \<open>
  \<^verbatim>\<open>Profile.findOneAndUpdate({ user: id }, { $set: fields }, { new: true })\<close> updates the
  first profile of that owner and returns it as updated, or \<^verbatim>\<open>null\<close> when there is none.
\<close>

definition Profile_findOneAndUpdate ::
  "env \<Rightarrow> string \<Rightarrow> profile_fields \<Rightarrow> db \<Rightarrow> js_error + (profile option \<times> db)" where
  "Profile_findOneAndUpdate e uid f d =
     (case query_error e Profile_findOneAndUpdate_op uid of
        Some err \<Rightarrow> Inl err
      | None \<Rightarrow>
          Inr (map_option (set_fields f) (find (\<lambda>p. user p = uid) (profiles d)),
               d\<lparr>profiles := update_first (\<lambda>p. user p = uid) (set_fields f) (profiles d)\<rparr>))"

text \<open>\<^verbatim>\<open>new Profile(profileFields)\<close>: the keys given, the lists empty.\<close>

definition new_Profile :: "profile_fields \<Rightarrow> profile" where
  "new_Profile f =
     \<lparr>user = pf_user f, company = pf_company f, website = pf_website f,
      location = pf_location f, bio = pf_bio f, status = pf_status f,
      githubusername = pf_githubusername f,
      skills = (case pf_skills f of None \<Rightarrow> [] | Some v \<Rightarrow> v),
      social = pf_social f, experience = [], education = []\<rparr>"

definition json_option :: "profile option \<Rightarrow> body" where
  "json_option r = (case r of None \<Rightarrow> Json_null | Some p \<Rightarrow> Json_profile p)"

definition post_profile_checks :: "(string \<times> string) list" where
  "post_profile_checks = [(''status'', ''Status is Required''), (''skills'', ''Skill is Required'')]"

definition post_profile :: "env \<Rightarrow> string \<Rightarrow> request \<Rightarrow> db \<Rightarrow> outcome \<times> db" where
  "post_profile e uid rq d =
     (let errors = validationResult post_profile_checks rq
      in if errors \<noteq> [] then (Response 400 (Json_errors errors), d)
         else
           (case Profile_findOne e uid d of
              Inl err \<Rightarrow> (Server_Error, d)
            | Inr (Some found) \<Rightarrow>
                (case Profile_findOneAndUpdate e uid (profileFields uid (req_body rq)) d of
                   Inl err \<Rightarrow> (Server_Error, d)
                 | Inr (updated, d') \<Rightarrow> (Response 200 (json_option updated), d'))
            | Inr None \<Rightarrow>
                (case Profile_save_new e (new_Profile (profileFields uid (req_body rq))) d of
                   Inl err \<Rightarrow> (Server_Error, d)
                 | Inr d' \<Rightarrow>
                     (Response 200 (Json_profile (new_Profile (profileFields uid (req_body rq)))), d'))))"

subsection \<open>GET api/profile and GET api/profile/user/:user_id\<close>

definition get_profiles :: "env \<Rightarrow> db \<Rightarrow> outcome \<times> db" where
  "get_profiles e d =
     (case Profile_find e d of
        Inl err \<Rightarrow> (console_err, d)
      | Inr ps \<Rightarrow> (Response 200 (Json_profiles (map (populate d) ps)), d))"

definition get_profile_by_user :: "env \<Rightarrow> string \<Rightarrow> db \<Rightarrow> outcome \<times> db" where
  "get_profile_by_user e user_id d =
     (case Profile_findOne e user_id d of
        Inl err \<Rightarrow>
          (if kind err = Some ''ObjectId'' then (Response 400 (Json_msg ''Profile not found''), d)
           else (Server_Error, d))
      | Inr None \<Rightarrow> (Response 400 (Json_msg ''Profile not found''), d)
      | Inr (Some p) \<Rightarrow> (Response 200 (Json_populated (populate d p)), d))"

subsection \<open>DELETE api/profile\<close>

text \<open>
  The three removals run in order; when one throws, the ones before it have happened and
  the catch block runs.
\<close>

definition delete_profile :: "env \<Rightarrow> string \<Rightarrow> db \<Rightarrow> outcome \<times> db" where
  "delete_profile e uid d =
     (case Post_deleteMany e uid d of
        Inl err \<Rightarrow> (console_err, d)
      | Inr d1 \<Rightarrow>
          (case Profile_findOneAndRemove e uid d1 of
             Inl err \<Rightarrow> (console_err, d1)
           | Inr d2 \<Rightarrow>
               (case User_findOneAndRemove e uid d2 of
                  Inl err \<Rightarrow> (console_err, d2)
                | Inr d3 \<Rightarrow> (Response 200 (Json_msg ''User Deleted''), d3))))"

subsection \<open>PUT and DELETE api/profile/experience\<close>

text \<open>
  The new entry is a copy of the body (\<^verbatim>\<open>{ ...req.body }\<close>), and the driver gives it its generated identifier
  when it is put into the list. Reading \<^verbatim>\<open>profile.experience\<close> when \<^verbatim>\<open>findOne\<close> returned
  \<^verbatim>\<open>null\<close> throws inside the inner \<^verbatim>\<open>try\<close>, whose catch block sends the 500 response.
\<close>

definition put_experience_checks :: "(string \<times> string) list" where
  "put_experience_checks =
     [(''title'', ''Title is required''), (''company'', ''Company is required''),
      (''from'', ''From Date is required'')]"

definition put_experience :: "env \<Rightarrow> string \<Rightarrow> request \<Rightarrow> db \<Rightarrow> outcome \<times> db" where
  "put_experience e uid rq d =
     (let errors = validationResult put_experience_checks rq
      in if errors \<noteq> [] then (Response 400 (Json_errors errors), d)
         else
           (let newExp = \<lparr>entry_id = new_id e, entry_fields = req_body rq\<rparr>
            in case Profile_findOne e uid d of
                 Inl err \<Rightarrow> (Server_Error, d)
               | Inr None \<Rightarrow> (Server_Error, d)
               | Inr (Some p) \<Rightarrow>
                   (let p' = p\<lparr>experience := unshift (experience p) newExp\<rparr>
                    in case Profile_save e p' d of
                         Inl err \<Rightarrow> (Server_Error, d)
                       | Inr d' \<Rightarrow> (Response 200 (Json_profile p'), d'))))"

definition delete_experience :: "env \<Rightarrow> string \<Rightarrow> string \<Rightarrow> db \<Rightarrow> outcome \<times> db" where
  "delete_experience e uid exp_id d =
     (case Profile_findOne e uid d of
        Inl err \<Rightarrow> (Server_Error, d)
      | Inr None \<Rightarrow> (Server_Error, d)
      | Inr (Some p) \<Rightarrow>
          (let removeIndex = indexOf (map entry_id (experience p)) exp_id;
               p' = p\<lparr>experience := splice_arr (experience p) removeIndex 1\<rparr>
           in case Profile_save e p' d of
                Inl err \<Rightarrow> (Server_Error, d)
              | Inr d' \<Rightarrow> (Response 200 (Json_profile p'), d')))"

subsection \<open>PUT and DELETE api/profile/education\<close>

definition put_education_checks :: "(string \<times> string) list" where
  "put_education_checks =
     [(''school'', ''School is required''), (''degree'', ''Degree is required''),
      (''from'', ''From Date is required''),
      (''fieldofstudy'', ''Field of Study is required'')]"

definition put_education :: "env \<Rightarrow> string \<Rightarrow> request \<Rightarrow> db \<Rightarrow> outcome \<times> db" where
  "put_education e uid rq d =
     (let errors = validationResult put_education_checks rq
      in if errors \<noteq> [] then (Response 400 (Json_errors errors), d)
         else
           (let newEdu = \<lparr>entry_id = new_id e, entry_fields = req_body rq\<rparr>
            in case Profile_findOne e uid d of
                 Inl err \<Rightarrow> (Server_Error, d)
               | Inr None \<Rightarrow> (Server_Error, d)
               | Inr (Some p) \<Rightarrow>
                   (let p' = p\<lparr>education := unshift (education p) newEdu\<rparr>
                    in case Profile_save e p' d of
                         Inl err \<Rightarrow> (Server_Error, d)
                       | Inr d' \<Rightarrow> (Response 200 (Json_profile p'), d'))))"

definition delete_education :: "env \<Rightarrow> string \<Rightarrow> string \<Rightarrow> db \<Rightarrow> outcome \<times> db" where
  "delete_education e uid edu_id d =
     (case Profile_findOne e uid d of
        Inl err \<Rightarrow> (Server_Error, d)
      | Inr None \<Rightarrow> (Server_Error, d)
      | Inr (Some p) \<Rightarrow>
          (let removeIndex = indexOf (map entry_id (education p)) edu_id;
               p' = p\<lparr>education := splice_arr (education p) removeIndex 1\<rparr>
           in case Profile_save e p' d of
                Inl err \<Rightarrow> (Server_Error, d)
              | Inr d' \<Rightarrow> (Response 200 (Json_profile p'), d')))"

subsection \<open>GET api/profile/github/:username\<close>

text \<open>
  \<^verbatim>\<open>config.get\<close> throws when the key has no value. The template literal of the URI runs over
  two source lines: after \<^verbatim>\<open>sort=created:\<close> come a space, the line break and the twelve
  spaces that indent the next line, and \<^verbatim>\<open>client_secret\<close> is followed by the secret with
  nothing in between.
\<close>

record options =
  uri :: string
  request_method :: string
  headers :: "(string \<times> string) list"

datatype upstream =
    Transport_error string
  | Reply nat string

definition config_get :: "(string \<rightharpoonup> string) \<Rightarrow> string \<Rightarrow> js_error + string" where
  "config_get config k =
     (case config k of
        None \<Rightarrow> Inl \<lparr>message = ''Configuration property is not defined'', kind = None\<rparr>
      | Some v \<Rightarrow> Inr v)"

definition github_uri :: "string \<Rightarrow> string \<Rightarrow> string \<Rightarrow> string" where
  "github_uri username githubClientId githubClientSecret =
     ''https://api.github.com/users/'' @ username @ ''/repos?per_page=5&sort=created: '' @
     [CHR 0x0A] @ ''            asc&client_id='' @ githubClientId @
     ''&client_secret'' @ githubClientSecret"

text \<open>
  The callback of \<^verbatim>\<open>request\<close> runs after the handler has returned, outside its \<^verbatim>\<open>try\<close>. On
  a transport error \<^verbatim>\<open>response\<close> is undefined and reading its status code throws; so does
  \<^verbatim>\<open>JSON.parse\<close> on a body that is not JSON (\<open>parses\<close> says which bodies are).
\<close>

definition github_callback :: "(string \<Rightarrow> bool) \<Rightarrow> upstream \<Rightarrow> outcome" where
  "github_callback parses r =
     (case r of
        Transport_error err \<Rightarrow>
          Uncaught (TypeError ''Cannot read property statusCode of undefined'')
      | Reply statusCode b \<Rightarrow>
          if statusCode \<noteq> 200 then Response 404 (Json_msg ''No Github Profile found'')
          else if parses b then Response 200 (Json_parsed b)
          else Uncaught \<lparr>message = ''Unexpected token in JSON'', kind = None\<rparr>)"

text \<open>The handler returns the outbound requests it issued and the outcome.\<close>

definition get_github ::
  "(string \<rightharpoonup> string) \<Rightarrow> (options \<Rightarrow> upstream) \<Rightarrow> (string \<Rightarrow> bool) \<Rightarrow> string
     \<Rightarrow> options list \<times> outcome" where
  "get_github config net parses username =
     (case config_get config ''githubClientId'' of
        Inl err \<Rightarrow> ([], Server_Error)
      | Inr cid \<Rightarrow>
          (case config_get config ''githubClientSecret'' of
             Inl err \<Rightarrow> ([], Server_Error)
           | Inr csecret \<Rightarrow>
               (let opts = \<lparr>uri = github_uri username cid csecret, request_method = ''GET'',
                             headers = [(''user-agent'', ''node.js'')]\<rparr>
                in ([opts], github_callback parses (net opts)))))"

text \<open>
  What a query string carries: the part of the URI after the first question mark, cut at
  the ampersands, has the parameter \<open>k\<close> with the value \<open>v\<close> when one of the pieces is
  \<open>k=v\<close>.
\<close>

definition query_params :: "string \<Rightarrow> string list" where
  "query_params u = split_str CHR ''&'' (drop 1 (dropWhile (\<lambda>c. c \<noteq> CHR ''?'') u))"

definition carries :: "string \<Rightarrow> string \<Rightarrow> string \<Rightarrow> bool" where
  "carries u k v = (k @ ''='' @ v \<in> set (query_params u))"

subsection \<open>Sequences of requests\<close>

text \<open>
  Requests run one after the other, each on the database the one before left. An upsert
  is its environment, the authenticated owner and the request.
\<close>

fun upserts :: "(env \<times> string \<times> request) list \<Rightarrow> db \<Rightarrow> db" where
  "upserts [] d = d"
| "upserts ((e, uid, rq) # rs) d = upserts rs (snd (post_profile e uid rq d))"

definition is_ok :: "outcome \<Rightarrow> bool" where
  "is_ok r = (case r of Response c b \<Rightarrow> c = 200 | Uncaught err \<Rightarrow> False)"

text \<open>A run of list-add requests of one owner: the outcomes, in order, and the database.\<close>

fun add_experiences :: "string \<Rightarrow> (env \<times> request) list \<Rightarrow> db \<Rightarrow> outcome list \<times> db" where
  "add_experiences uid [] d = ([], d)"
| "add_experiences uid (r # rs) d =
     (let (out, d') = put_experience (fst r) uid (snd r) d;
          (outs, d'') = add_experiences uid rs d'
      in (out # outs, d''))"

fun add_educations :: "string \<Rightarrow> (env \<times> request) list \<Rightarrow> db \<Rightarrow> outcome list \<times> db" where
  "add_educations uid [] d = ([], d)"
| "add_educations uid (r # rs) d =
     (let (out, d') = put_education (fst r) uid (snd r) d;
          (outs, d'') = add_educations uid rs d'
      in (out # outs, d''))"

text \<open>The entry a list-add request makes.\<close>

definition entry_of :: "env \<times> request \<Rightarrow> entry" where
  "entry_of r = \<lparr>entry_id = new_id (fst r), entry_fields = req_body (snd r)\<rparr>"

text \<open>The number of profiles an owner has in the database.\<close>

definition profiles_of :: "string \<Rightarrow> db \<Rightarrow> nat" where
  "profiles_of uid d = length (filter (\<lambda>p. user p = uid) (profiles d))"

text \<open>What is stored for an owner: the first profile of that owner.\<close>

definition stored :: "string \<Rightarrow> db \<Rightarrow> profile option" where
  "stored uid d = find (\<lambda>p. user p = uid) (profiles d)"


subsection \<open>The words of the specification\<close>




text \<open>Tokens joined with a separator between them.\<close>

fun join_str :: "char \<Rightarrow> string list \<Rightarrow> string" where
  "join_str sep [] = []"
| "join_str sep [t] = t"
| "join_str sep (t # u # ts) = t @ sep # join_str sep (u # ts)"

text \<open>
  \<open>u\<close> is \<open>t\<close> trimmed of surrounding white space: \<open>t\<close> is \<open>u\<close> between two runs of white
  space, and \<open>u\<close> neither begins nor ends with white space.
\<close>

definition trimmed :: "string \<Rightarrow> string \<Rightarrow> bool" where
  "trimmed t u =
     (\<exists>a b. t = a @ u @ b \<and> list_all white_space a \<and> list_all white_space b \<and>
            (u \<noteq> [] \<longrightarrow> \<not> white_space (hd u) \<and> \<not> white_space (last u)))"

subsection \<open>Concrete requests\<close>

definition env_ok :: env where
  "env_ok = \<lparr>fault = (\<lambda>op. None), castable = (\<lambda>s. True), new_id = ''e9''\<rparr>"

definition env_find_throws :: env where
  "env_find_throws =
     \<lparr>fault = (\<lambda>op. if op = Profile_find_op
                     then Some \<lparr>message = ''connection lost'', kind = None\<rparr> else None),
      castable = (\<lambda>s. True), new_id = ''e9''\<rparr>"

definition env_deleteMany_throws :: env where
  "env_deleteMany_throws =
     \<lparr>fault = (\<lambda>op. if op = Post_deleteMany_op
                     then Some \<lparr>message = ''connection lost'', kind = None\<rparr> else None),
      castable = (\<lambda>s. True), new_id = ''e9''\<rparr>"

definition env_strict :: env where
  "env_strict = \<lparr>fault = (\<lambda>op. None), castable = (\<lambda>s. length s = 24), new_id = ''e9''\<rparr>"

definition entry_a :: entry where
  "entry_a = \<lparr>entry_id = ''e1'', entry_fields = [''title'' \<mapsto> ''Developer'']\<rparr>"

definition entry_b :: entry where
  "entry_b = \<lparr>entry_id = ''e2'', entry_fields = [''title'' \<mapsto> ''Tester'']\<rparr>"

definition entry_c :: entry where
  "entry_c = \<lparr>entry_id = ''e1'', entry_fields = [''title'' \<mapsto> ''Intern'']\<rparr>"

definition alice :: profile where
  "alice =
     \<lparr>user = ''u1'', company = Some ''Acme'', website = None, location = None, bio = None,
      status = Some ''Developer'', githubusername = None, skills = [''js''],
      social = [''facebook'' \<mapsto> ''https://facebook.com/alice''],
      experience = [entry_a, entry_b, entry_c], education = [entry_b, entry_a]\<rparr>"

definition db_alice :: db where
  "db_alice = \<lparr>profiles = [alice], users = [], posts = []\<rparr>"

definition body_upsert :: obj where
  "body_upsert =
     [''status'' \<mapsto> ''Senior Developer'', ''skills'' \<mapsto> ''a, b ,c'',
      ''youtube'' \<mapsto> ''https://youtube.com/alice'']"

definition body_upsert_2 :: obj where
  "body_upsert_2 = [''status'' \<mapsto> ''Manager'', ''skills'' \<mapsto> ''planning'']"

definition body_experience :: obj where
  "body_experience = [''title'' \<mapsto> ''Lead'', ''company'' \<mapsto> ''Acme'', ''from'' \<mapsto> ''2020-01-01'']"

definition body_experience_2 :: obj where
  "body_experience_2 = [''title'' \<mapsto> ''CTO'', ''company'' \<mapsto> ''Initech'', ''from'' \<mapsto> ''2022-06-01'']"

definition body_education :: obj where
  "body_education =
     [''school'' \<mapsto> ''MIT'', ''degree'' \<mapsto> ''BSc'', ''from'' \<mapsto> ''2015-09-01'',
      ''fieldofstudy'' \<mapsto> ''Mathematics'']"

definition body_education_2 :: obj where
  "body_education_2 =
     [''school'' \<mapsto> ''ETH'', ''degree'' \<mapsto> ''MSc'', ''from'' \<mapsto> ''2018-09-01'',
      ''fieldofstudy'' \<mapsto> ''Computer Science'']"


text \<open>A request that has a body and a host header and nothing else.\<close>

definition body_only :: "obj \<Rightarrow> request" where
  "body_only b =
     \<lparr>req_body = b, req_cookies = Map.empty, req_headers = [''host'' \<mapsto> ''localhost:5000''],
      req_params = Map.empty, req_query = Map.empty\<rparr>"



definition config_github :: "string \<rightharpoonup> string" where
  "config_github = [''githubClientId'' \<mapsto> ''abc'', ''githubClientSecret'' \<mapsto> ''xyz'']"

definition net_404 :: "options \<Rightarrow> upstream" where
  "net_404 opts = Reply 404 ''{}''"

definition parses_all :: "string \<Rightarrow> bool" where
  "parses_all s = True"

section \<open>Properties\<close>

subsection \<open>Removing an entry\<close>

lemma indexOf_absent: "x \<notin> set ys \<Longrightarrow> indexOf ys x = - 1"
  by (induction ys) (auto simp: Let_def)

lemma indexOf_append_first:
  "x \<notin> set pre \<Longrightarrow> indexOf (pre @ x # post) x = int (length pre)"
  by (induction pre) (auto simp: Let_def)

lemma splice_at: "splice_arr (pre @ x # post) (int (length pre)) 1 = pre @ post"
proof -
  have "nat (int (length pre) + 1) = Suc (length pre)" by simp
  then show ?thesis by (simp add: splice_arr_def Let_def)
qed

lemma splice_last: "splice_arr xs (- 1) 1 = butlast xs"
  by (cases xs rule: rev_cases) (simp_all add: splice_arr_def Let_def)

lemma first_occurrence:
  "t \<in> f ` set xs \<Longrightarrow> \<exists>pre x post. xs = pre @ x # post \<and> f x = t \<and> t \<notin> f ` set pre"
proof (induction xs)
  case Nil
  then show ?case by simp
next
  case (Cons a xs)
  show ?case
  proof (cases "f a = t")
    case True
    then have "a # xs = [] @ a # xs \<and> f a = t \<and> t \<notin> f ` set []" by simp
    then show ?thesis by blast
  next
    case False
    with Cons.prems have "t \<in> f ` set xs" by auto
    from Cons.IH [OF this] obtain pre x post
      where "xs = pre @ x # post" "f x = t" "t \<notin> f ` set pre" by blast
    with False have "a # xs = (a # pre) @ x # post \<and> f x = t \<and> t \<notin> f ` set (a # pre)"
      by auto
    then show ?thesis by blast
  qed
qed

lemma remove_first_occurrence:
  assumes "xs = pre @ x # post" "f x = t" "t \<notin> f ` set pre"
  shows "splice_arr xs (indexOf (map f xs) t) 1 = pre @ post"
proof -
  have "t \<notin> set (map f pre)" using assms(3) by simp
  then have "indexOf (map f pre @ t # map f post) t = int (length (map f pre))"
    by (rule indexOf_append_first)
  then have "indexOf (map f xs) t = int (length pre)"
    using assms(1,2) by simp
  then show ?thesis using assms(1) by (simp add: splice_at)
qed

lemma find_update_first:
  "find P xs = Some x \<Longrightarrow> P y \<Longrightarrow> find P (update_first P (\<lambda>q. y) xs) = Some y"
  by (induction xs) (auto split: if_splits)


lemma Profile_findOne_SomeD:
  assumes "Profile_findOne e uid d = Inr (Some p)"
  shows "query_error e Profile_findOne_op uid = None"
    and "find (\<lambda>q. user q = uid) (profiles d) = Some p"
    and "user p = uid"
proof -
  from assms show q: "query_error e Profile_findOne_op uid = None"
    by (cases "query_error e Profile_findOne_op uid") (simp_all add: Profile_findOne_def)
  with assms show f: "find (\<lambda>q. user q = uid) (profiles d) = Some p"
    by (simp add: Profile_findOne_def)
  then show "user p = uid"
    by (auto simp: find_Some_iff)
qed

lemma save_loaded:
  assumes "Profile_findOne e uid d = Inr (Some p)"
      and "fault e Profile_save_op = None"
      and "user p' = user p"
  shows "\<exists>d'. Profile_save e p' d = Inr d' \<and> Profile_findOne e uid d' = Inr (Some p')"
proof -
  note f = Profile_findOne_SomeD [OF assms(1)]
  let ?d = "d\<lparr>profiles := update_first (\<lambda>q. user q = user p') (\<lambda>q. p') (profiles d)\<rparr>"
  have s: "Profile_save e p' d = Inr ?d"
    using assms(2) by (simp add: Profile_save_def)
  have u: "user p' = uid" using assms(3) f(3) by simp
  have "find (\<lambda>q. user q = uid) (update_first (\<lambda>q. user q = uid) (\<lambda>q. p') (profiles d)) = Some p'"
    using f(2) u by (rule find_update_first)
  then have "Profile_findOne e uid ?d = Inr (Some p')"
    using f(1) u by (simp add: Profile_findOne_def)
  with s show ?thesis by blast
qed

lemma delete_experience_loaded:
  assumes "Profile_findOne e uid d = Inr (Some p)"
      and "fault e Profile_save_op = None"
  shows "fst (delete_experience e uid t d) =
           Response 200 (Json_profile
             (p\<lparr>experience := splice_arr (experience p) (indexOf (map entry_id (experience p)) t) 1\<rparr>))
       \<and> Profile_findOne e uid (snd (delete_experience e uid t d)) =
           Inr (Some (p\<lparr>experience := splice_arr (experience p) (indexOf (map entry_id (experience p)) t) 1\<rparr>))"
proof -
  let ?p = "p\<lparr>experience := splice_arr (experience p) (indexOf (map entry_id (experience p)) t) 1\<rparr>"
  have "user ?p = user p" by simp
  from save_loaded [OF assms this] obtain d'
    where "Profile_save e ?p d = Inr d'" "Profile_findOne e uid d' = Inr (Some ?p)" by blast
  then show ?thesis using assms(1) by (simp add: delete_experience_def Let_def)
qed

lemma delete_education_loaded:
  assumes "Profile_findOne e uid d = Inr (Some p)"
      and "fault e Profile_save_op = None"
  shows "fst (delete_education e uid t d) =
           Response 200 (Json_profile
             (p\<lparr>education := splice_arr (education p) (indexOf (map entry_id (education p)) t) 1\<rparr>))
       \<and> Profile_findOne e uid (snd (delete_education e uid t d)) =
           Inr (Some (p\<lparr>education := splice_arr (education p) (indexOf (map entry_id (education p)) t) 1\<rparr>))"
proof -
  let ?p = "p\<lparr>education := splice_arr (education p) (indexOf (map entry_id (education p)) t) 1\<rparr>"
  have "user ?p = user p" by simp
  from save_loaded [OF assms this] obtain d'
    where "Profile_save e ?p d = Inr d'" "Profile_findOne e uid d' = Inr (Some ?p)" by blast
  then show ?thesis using assms(1) by (simp add: delete_education_def Let_def)
qed

text \<open>
  Claim C2. When the experience (resp. education) list of the owner's profile has an entry
  with the target identifier, the remove handler deletes the first such entry and nothing
  else: the list splits into the entries before it (none of which has the identifier),
  the entry, and the entries after it, and both the profile in the response and the
  stored profile hold the entries before followed by the entries after, in their order.
\<close>

theorem remove_deletes_first_match:
  assumes "Profile_findOne e uid d = Inr (Some p)"
      and "fault e Profile_save_op = None"
  shows "(t \<in> entry_id ` set (experience p) \<longrightarrow>
            (\<exists>pre x post.
               experience p = pre @ x # post \<and> entry_id x = t \<and> t \<notin> entry_id ` set pre \<and>
               fst (delete_experience e uid t d) =
                 Response 200 (Json_profile (p\<lparr>experience := pre @ post\<rparr>)) \<and>
               Profile_findOne e uid (snd (delete_experience e uid t d)) =
                 Inr (Some (p\<lparr>experience := pre @ post\<rparr>))))
       \<and> (t \<in> entry_id ` set (education p) \<longrightarrow>
            (\<exists>pre x post.
               education p = pre @ x # post \<and> entry_id x = t \<and> t \<notin> entry_id ` set pre \<and>
               fst (delete_education e uid t d) =
                 Response 200 (Json_profile (p\<lparr>education := pre @ post\<rparr>)) \<and>
               Profile_findOne e uid (snd (delete_education e uid t d)) =
                 Inr (Some (p\<lparr>education := pre @ post\<rparr>))))"
proof (rule conjI; rule impI)
  assume "t \<in> entry_id ` set (experience p)"
  from first_occurrence [OF this] obtain pre x post
    where d: "experience p = pre @ x # post" "entry_id x = t" "t \<notin> entry_id ` set pre"
    by blast
  have "splice_arr (experience p) (indexOf (map entry_id (experience p)) t) 1 = pre @ post"
    using d by (rule remove_first_occurrence)
  with delete_experience_loaded [OF assms, of t] d
  show "\<exists>pre x post.
          experience p = pre @ x # post \<and> entry_id x = t \<and> t \<notin> entry_id ` set pre \<and>
          fst (delete_experience e uid t d) =
            Response 200 (Json_profile (p\<lparr>experience := pre @ post\<rparr>)) \<and>
          Profile_findOne e uid (snd (delete_experience e uid t d)) =
            Inr (Some (p\<lparr>experience := pre @ post\<rparr>))"
    by (metis (no_types))
next
  assume "t \<in> entry_id ` set (education p)"
  from first_occurrence [OF this] obtain pre x post
    where d: "education p = pre @ x # post" "entry_id x = t" "t \<notin> entry_id ` set pre"
    by blast
  have "splice_arr (education p) (indexOf (map entry_id (education p)) t) 1 = pre @ post"
    using d by (rule remove_first_occurrence)
  with delete_education_loaded [OF assms, of t] d
  show "\<exists>pre x post.
          education p = pre @ x # post \<and> entry_id x = t \<and> t \<notin> entry_id ` set pre \<and>
          fst (delete_education e uid t d) =
            Response 200 (Json_profile (p\<lparr>education := pre @ post\<rparr>)) \<and>
          Profile_findOne e uid (snd (delete_education e uid t d)) =
            Inr (Some (p\<lparr>education := pre @ post\<rparr>))"
    by (metis (no_types))
qed

text \<open>
  Claim C3. When the experience (resp. education) list is not empty and no entry has the
  target identifier, \<open>indexOf\<close> gives \<open>-1\<close>, \<open>splice\<close> counts from the end, and the remove
  handler deletes the last entry of the list, in the response and in the store.
\<close>

theorem remove_without_match_deletes_last:
  assumes "Profile_findOne e uid d = Inr (Some p)"
      and "fault e Profile_save_op = None"
  shows "(experience p \<noteq> [] \<and> t \<notin> entry_id ` set (experience p) \<longrightarrow>
            fst (delete_experience e uid t d) =
              Response 200 (Json_profile (p\<lparr>experience := butlast (experience p)\<rparr>)) \<and>
            Profile_findOne e uid (snd (delete_experience e uid t d)) =
              Inr (Some (p\<lparr>experience := butlast (experience p)\<rparr>)))
       \<and> (education p \<noteq> [] \<and> t \<notin> entry_id ` set (education p) \<longrightarrow>
            fst (delete_education e uid t d) =
              Response 200 (Json_profile (p\<lparr>education := butlast (education p)\<rparr>)) \<and>
            Profile_findOne e uid (snd (delete_education e uid t d)) =
              Inr (Some (p\<lparr>education := butlast (education p)\<rparr>)))"
proof (rule conjI; rule impI)
  assume "experience p \<noteq> [] \<and> t \<notin> entry_id ` set (experience p)"
  then have "indexOf (map entry_id (experience p)) t = - 1"
    by (simp add: indexOf_absent)
  with delete_experience_loaded [OF assms, of t]
  show "fst (delete_experience e uid t d) =
          Response 200 (Json_profile (p\<lparr>experience := butlast (experience p)\<rparr>)) \<and>
        Profile_findOne e uid (snd (delete_experience e uid t d)) =
          Inr (Some (p\<lparr>experience := butlast (experience p)\<rparr>))"
    by (simp add: splice_last)
next
  assume "education p \<noteq> [] \<and> t \<notin> entry_id ` set (education p)"
  then have "indexOf (map entry_id (education p)) t = - 1"
    by (simp add: indexOf_absent)
  with delete_education_loaded [OF assms, of t]
  show "fst (delete_education e uid t d) =
          Response 200 (Json_profile (p\<lparr>education := butlast (education p)\<rparr>)) \<and>
        Profile_findOne e uid (snd (delete_education e uid t d)) =
          Inr (Some (p\<lparr>education := butlast (education p)\<rparr>))"
    by (simp add: splice_last)
qed


lemma findOne_alice: "Profile_findOne env_ok ''u1'' db_alice = Inr (Some alice)"
  by (simp add: Profile_findOne_def query_error_def env_ok_def db_alice_def alice_def)

theorem remove_deletes_first_match_witness:
  "Profile_findOne env_ok ''u1'' db_alice = Inr (Some alice) \<and>
   fault env_ok Profile_save_op = None \<and>
   ''e1'' \<in> entry_id ` set (experience alice) \<and>
   ''e1'' \<in> entry_id ` set (education alice) \<and>
   (\<exists>pre x post.
      experience alice = pre @ x # post \<and> entry_id x = ''e1'' \<and> ''e1'' \<notin> entry_id ` set pre \<and>
      fst (delete_experience env_ok ''u1'' ''e1'' db_alice) =
        Response 200 (Json_profile (alice\<lparr>experience := pre @ post\<rparr>)) \<and>
      Profile_findOne env_ok ''u1'' (snd (delete_experience env_ok ''u1'' ''e1'' db_alice)) =
        Inr (Some (alice\<lparr>experience := pre @ post\<rparr>))) \<and>
   (\<exists>pre x post.
      education alice = pre @ x # post \<and> entry_id x = ''e1'' \<and> ''e1'' \<notin> entry_id ` set pre \<and>
      fst (delete_education env_ok ''u1'' ''e1'' db_alice) =
        Response 200 (Json_profile (alice\<lparr>education := pre @ post\<rparr>)) \<and>
      Profile_findOne env_ok ''u1'' (snd (delete_education env_ok ''u1'' ''e1'' db_alice)) =
        Inr (Some (alice\<lparr>education := pre @ post\<rparr>))) \<and>
   fst (delete_experience env_ok ''u1'' ''e1'' db_alice) =
     Response 200 (Json_profile (alice\<lparr>experience := [entry_b, entry_c]\<rparr>)) \<and>
   fst (delete_education env_ok ''u1'' ''e1'' db_alice) =
     Response 200 (Json_profile (alice\<lparr>education := [entry_b]\<rparr>))"
proof -
  have h1: "Profile_findOne env_ok ''u1'' db_alice = Inr (Some alice)"
    by (simp add: Profile_findOne_def query_error_def env_ok_def db_alice_def alice_def)
  have h2: "fault env_ok Profile_save_op = None"
    by (simp add: env_ok_def)
  have h3: "''e1'' \<in> entry_id ` set (experience alice)"
    by (simp add: alice_def entry_a_def)
  have h4: "''e1'' \<in> entry_id ` set (education alice)"
    by (simp add: alice_def entry_a_def)
  have v1: "fst (delete_experience env_ok ''u1'' ''e1'' db_alice) =
     Response 200 (Json_profile (alice\<lparr>experience := [entry_b, entry_c]\<rparr>))"
    by (simp add: delete_experience_def h1 Profile_save_def h2 splice_arr_def Let_def
          alice_def entry_a_def entry_b_def entry_c_def)
  have v2: "fst (delete_education env_ok ''u1'' ''e1'' db_alice) =
     Response 200 (Json_profile (alice\<lparr>education := [entry_b]\<rparr>))"
    by (simp add: delete_education_def h1 Profile_save_def h2 splice_arr_def Let_def
          alice_def entry_a_def entry_b_def entry_c_def)
  from remove_deletes_first_match [OF h1 h2, of "''e1''"] h1 h2 h3 h4 v1 v2
  show ?thesis by blast
qed

theorem remove_without_match_deletes_last_witness:
  "Profile_findOne env_ok ''u1'' db_alice = Inr (Some alice) \<and>
   fault env_ok Profile_save_op = None \<and>
   experience alice \<noteq> [] \<and> ''zz'' \<notin> entry_id ` set (experience alice) \<and>
   education alice \<noteq> [] \<and> ''zz'' \<notin> entry_id ` set (education alice) \<and>
   fst (delete_experience env_ok ''u1'' ''zz'' db_alice) =
     Response 200 (Json_profile (alice\<lparr>experience := butlast (experience alice)\<rparr>)) \<and>
   fst (delete_education env_ok ''u1'' ''zz'' db_alice) =
     Response 200 (Json_profile (alice\<lparr>education := butlast (education alice)\<rparr>)) \<and>
   butlast (experience alice) = [entry_a, entry_b] \<and>
   butlast (education alice) = [entry_b]"
proof -
  have h1: "Profile_findOne env_ok ''u1'' db_alice = Inr (Some alice)"
    by (simp add: Profile_findOne_def query_error_def env_ok_def db_alice_def alice_def)
  have h2: "fault env_ok Profile_save_op = None"
    by (simp add: env_ok_def)
  have h3: "experience alice \<noteq> [] \<and> ''zz'' \<notin> entry_id ` set (experience alice)"
    by (simp add: alice_def entry_a_def entry_b_def entry_c_def)
  have h4: "education alice \<noteq> [] \<and> ''zz'' \<notin> entry_id ` set (education alice)"
    by (simp add: alice_def entry_a_def entry_b_def entry_c_def)
  have v: "butlast (experience alice) = [entry_a, entry_b] \<and> butlast (education alice) = [entry_b]"
    by (simp add: alice_def)
  from remove_without_match_deletes_last [OF h1 h2, of "''zz''"] h1 h2 h3 h4 v
  show ?thesis by blast
qed

subsection \<open>Adding an entry\<close>

lemma stored_findOne:
  "Profile_findOne e uid d = Inr r \<Longrightarrow> stored uid d = r"
  by (cases "query_error e Profile_findOne_op uid")
     (simp_all add: Profile_findOne_def stored_def)

lemma stored_save:
  assumes "stored uid d = Some p" and "user p' = user p"
      and "Profile_save e p' d = Inr d'"
  shows "stored uid d' = Some p'"
proof -
  from assms(1) have f: "find (\<lambda>q. user q = uid) (profiles d) = Some p"
    by (simp add: stored_def)
  then have u: "user p = uid" by (auto simp: find_Some_iff)
  from assms(3) have d': "d' = d\<lparr>profiles := update_first (\<lambda>q. user q = user p') (\<lambda>q. p') (profiles d)\<rparr>"
    by (cases "fault e Profile_save_op") (simp_all add: Profile_save_def)
  have "find (\<lambda>q. user q = uid) (update_first (\<lambda>q. user q = uid) (\<lambda>q. p') (profiles d)) = Some p'"
    using f assms(2) u by (intro find_update_first) simp_all
  then show ?thesis using d' assms(2) u by (simp add: stored_def)
qed

lemma put_experience_ok:
  assumes "put_experience e uid b d = (Response 200 r, d')"
  shows "\<exists>p. stored uid d = Some p \<and>
             r = Json_profile (p\<lparr>experience := entry_of (e, b) # experience p\<rparr>) \<and>
             stored uid d' = Some (p\<lparr>experience := entry_of (e, b) # experience p\<rparr>)"
proof -
  from assms have v: "validationResult put_experience_checks b = []"
    by (auto simp: put_experience_def Let_def split: if_splits)
  from assms v obtain p where f: "Profile_findOne e uid d = Inr (Some p)"
    by (auto simp: put_experience_def Let_def Server_Error_def split: sum.splits option.splits)
  let ?p = "p\<lparr>experience := entry_of (e, b) # experience p\<rparr>"
  from assms v f have s: "Profile_save e ?p d = Inr d'" and r: "r = Json_profile ?p"
    by (auto simp: put_experience_def Let_def Server_Error_def unshift_def entry_of_def
             split: sum.splits)
  have st: "stored uid d = Some p" using f by (rule stored_findOne)
  have "user ?p = user p" by simp
  with st have "stored uid d' = Some ?p" using s by (rule stored_save)
  with st r show ?thesis by blast
qed

lemma put_education_ok:
  assumes "put_education e uid b d = (Response 200 r, d')"
  shows "\<exists>p. stored uid d = Some p \<and>
             r = Json_profile (p\<lparr>education := entry_of (e, b) # education p\<rparr>) \<and>
             stored uid d' = Some (p\<lparr>education := entry_of (e, b) # education p\<rparr>)"
proof -
  from assms have v: "validationResult put_education_checks b = []"
    by (auto simp: put_education_def Let_def split: if_splits)
  from assms v obtain p where f: "Profile_findOne e uid d = Inr (Some p)"
    by (auto simp: put_education_def Let_def Server_Error_def split: sum.splits option.splits)
  let ?p = "p\<lparr>education := entry_of (e, b) # education p\<rparr>"
  from assms v f have s: "Profile_save e ?p d = Inr d'" and r: "r = Json_profile ?p"
    by (auto simp: put_education_def Let_def Server_Error_def unshift_def entry_of_def
             split: sum.splits)
  have st: "stored uid d = Some p" using f by (rule stored_findOne)
  have "user ?p = user p" by simp
  with st have "stored uid d' = Some ?p" using s by (rule stored_save)
  with st r show ?thesis by blast
qed

lemma put_experience_is_ok:
  assumes "is_ok (fst (put_experience e uid b d))"
  shows "\<exists>r. put_experience e uid b d = (Response 200 r, snd (put_experience e uid b d))"
proof (cases "fst (put_experience e uid b d)")
  case (Response c r)
  with assms have "c = 200" by (simp add: is_ok_def)
  with Response show ?thesis by (metis prod.collapse)
next
  case (Uncaught err)
  with assms show ?thesis by (simp add: is_ok_def)
qed

lemma put_education_is_ok:
  assumes "is_ok (fst (put_education e uid b d))"
  shows "\<exists>r. put_education e uid b d = (Response 200 r, snd (put_education e uid b d))"
proof (cases "fst (put_education e uid b d)")
  case (Response c r)
  with assms have "c = 200" by (simp add: is_ok_def)
  with Response show ?thesis by (metis prod.collapse)
next
  case (Uncaught err)
  with assms show ?thesis by (simp add: is_ok_def)
qed

lemma add_experiences_Cons:
  "fst (add_experiences uid (r # rs) d) =
     fst (put_experience (fst r) uid (snd r) d) #
     fst (add_experiences uid rs (snd (put_experience (fst r) uid (snd r) d)))"
  "snd (add_experiences uid (r # rs) d) =
     snd (add_experiences uid rs (snd (put_experience (fst r) uid (snd r) d)))"
  by (simp_all add: Let_def case_prod_beta)

lemma add_educations_Cons:
  "fst (add_educations uid (r # rs) d) =
     fst (put_education (fst r) uid (snd r) d) #
     fst (add_educations uid rs (snd (put_education (fst r) uid (snd r) d)))"
  "snd (add_educations uid (r # rs) d) =
     snd (add_educations uid rs (snd (put_education (fst r) uid (snd r) d)))"
  by (simp_all add: Let_def case_prod_beta)

lemma add_experiences_rev:
  "stored uid d = Some p \<Longrightarrow> list_all is_ok (fst (add_experiences uid rs d)) \<Longrightarrow>
   stored uid (snd (add_experiences uid rs d)) =
     Some (p\<lparr>experience := rev (map entry_of rs) @ experience p\<rparr>)"
proof (induction rs arbitrary: d p)
  case Nil
  then show ?case by simp
next
  case (Cons r rs)
  let ?step = "put_experience (fst r) uid (snd r) d"
  from Cons.prems(2) have ok: "is_ok (fst ?step)"
    and rest: "list_all is_ok (fst (add_experiences uid rs (snd ?step)))"
    by (simp_all add: add_experiences_Cons del: add_experiences.simps)
  from put_experience_is_ok [OF ok] obtain body where "?step = (Response 200 body, snd ?step)"
    by blast
  from put_experience_ok [OF this] Cons.prems(1)
  have "stored uid (snd ?step) = Some (p\<lparr>experience := entry_of r # experience p\<rparr>)"
    by simp
  from Cons.IH [OF this rest] show ?case
    by (simp add: add_experiences_Cons del: add_experiences.simps)
qed

lemma add_educations_rev:
  "stored uid d = Some p \<Longrightarrow> list_all is_ok (fst (add_educations uid rs d)) \<Longrightarrow>
   stored uid (snd (add_educations uid rs d)) =
     Some (p\<lparr>education := rev (map entry_of rs) @ education p\<rparr>)"
proof (induction rs arbitrary: d p)
  case Nil
  then show ?case by simp
next
  case (Cons r rs)
  let ?step = "put_education (fst r) uid (snd r) d"
  from Cons.prems(2) have ok: "is_ok (fst ?step)"
    and rest: "list_all is_ok (fst (add_educations uid rs (snd ?step)))"
    by (simp_all add: add_educations_Cons del: add_educations.simps)
  from put_education_is_ok [OF ok] obtain body where "?step = (Response 200 body, snd ?step)"
    by blast
  from put_education_ok [OF this] Cons.prems(1)
  have "stored uid (snd ?step) = Some (p\<lparr>education := entry_of r # education p\<rparr>)"
    by simp
  from Cons.IH [OF this rest] show ?case
    by (simp add: add_educations_Cons del: add_educations.simps)
qed


text \<open>
  Claim C5. A list-add request that succeeds (status 200) found the owner's profile, and
  the profile in the response and the stored profile are that profile with the new entry
  in front of the entries it had, which keep their order. After a run of successful adds
  the stored list is the new entries in reverse order of insertion, followed by the
  entries the list had before the run.
\<close>

theorem add_inserts_at_head:
  "(put_experience e uid b d = (Response 200 r, d') \<longrightarrow>
      (\<exists>p. stored uid d = Some p \<and>
           r = Json_profile (p\<lparr>experience := entry_of (e, b) # experience p\<rparr>) \<and>
           stored uid d' = Some (p\<lparr>experience := entry_of (e, b) # experience p\<rparr>)))
   \<and> (put_education e uid b d = (Response 200 r, d') \<longrightarrow>
      (\<exists>p. stored uid d = Some p \<and>
           r = Json_profile (p\<lparr>education := entry_of (e, b) # education p\<rparr>) \<and>
           stored uid d' = Some (p\<lparr>education := entry_of (e, b) # education p\<rparr>)))
   \<and> (stored uid d = Some q \<and> list_all is_ok (fst (add_experiences uid rs d)) \<longrightarrow>
      stored uid (snd (add_experiences uid rs d)) =
        Some (q\<lparr>experience := rev (map entry_of rs) @ experience q\<rparr>))
   \<and> (stored uid d = Some q \<and> list_all is_ok (fst (add_educations uid rs d)) \<longrightarrow>
      stored uid (snd (add_educations uid rs d)) =
        Some (q\<lparr>education := rev (map entry_of rs) @ education q\<rparr>))"
  using put_experience_ok [of e uid b d r d'] put_education_ok [of e uid b d r d']
    add_experiences_rev [of uid d q rs] add_educations_rev [of uid d q rs]
  by blast

lemma validation_experience: "validationResult put_experience_checks (body_only body_experience) = []"
  by (simp add: validationResult_def put_experience_checks_def check_not_empty_def field_instances_def
        locations_def field_path_def toLowerCase_def isEmpty_def body_only_def body_experience_def)

lemma validation_experience_2: "validationResult put_experience_checks (body_only body_experience_2) = []"
  by (simp add: validationResult_def put_experience_checks_def check_not_empty_def field_instances_def
        locations_def field_path_def toLowerCase_def isEmpty_def body_only_def body_experience_2_def)

lemma validation_education: "validationResult put_education_checks (body_only body_education) = []"
  by (simp add: validationResult_def put_education_checks_def check_not_empty_def field_instances_def
        locations_def field_path_def toLowerCase_def isEmpty_def body_only_def body_education_def)

lemma validation_education_2: "validationResult put_education_checks (body_only body_education_2) = []"
  by (simp add: validationResult_def put_education_checks_def check_not_empty_def field_instances_def
        locations_def field_path_def toLowerCase_def isEmpty_def body_only_def body_education_2_def)

lemma stored_alice: "stored ''u1'' db_alice = Some alice"
  by (simp add: stored_def db_alice_def alice_def)

lemma put_experience_alice:
  "stored ''u1'' d = Some p \<Longrightarrow> validationResult put_experience_checks b = [] \<Longrightarrow>
   fst (put_experience env_ok ''u1'' b d) =
     Response 200 (Json_profile (p\<lparr>experience := entry_of (env_ok, b) # experience p\<rparr>))"
  by (simp add: put_experience_def Profile_findOne_def query_error_def Profile_save_def
        env_ok_def stored_def unshift_def entry_of_def Let_def)

lemma put_education_alice:
  "stored ''u1'' d = Some p \<Longrightarrow> validationResult put_education_checks b = [] \<Longrightarrow>
   fst (put_education env_ok ''u1'' b d) =
     Response 200 (Json_profile (p\<lparr>education := entry_of (env_ok, b) # education p\<rparr>))"
  by (simp add: put_education_def Profile_findOne_def query_error_def Profile_save_def
        env_ok_def stored_def unshift_def entry_of_def Let_def)

theorem add_inserts_at_head_witness:
  "put_experience env_ok ''u1'' (body_only body_experience) db_alice =
     (Response 200
        (Json_profile (alice\<lparr>experience := entry_of (env_ok, (body_only body_experience)) # experience alice\<rparr>)),
      snd (put_experience env_ok ''u1'' (body_only body_experience) db_alice)) \<and>
   put_education env_ok ''u1'' (body_only body_education) db_alice =
     (Response 200
        (Json_profile (alice\<lparr>education := entry_of (env_ok, (body_only body_education)) # education alice\<rparr>)),
      snd (put_education env_ok ''u1'' (body_only body_education) db_alice)) \<and>
   stored ''u1'' db_alice = Some alice \<and>
   list_all is_ok
     (fst (add_experiences ''u1'' [(env_ok, (body_only body_experience)), (env_ok, (body_only body_experience_2))] db_alice)) \<and>
   list_all is_ok
     (fst (add_educations ''u1'' [(env_ok, (body_only body_education)), (env_ok, (body_only body_education_2))] db_alice)) \<and>
   stored ''u1'' (snd (put_experience env_ok ''u1'' (body_only body_experience) db_alice)) =
     Some (alice\<lparr>experience := entry_of (env_ok, (body_only body_experience)) # experience alice\<rparr>) \<and>
   stored ''u1'' (snd (put_education env_ok ''u1'' (body_only body_education) db_alice)) =
     Some (alice\<lparr>education := entry_of (env_ok, (body_only body_education)) # education alice\<rparr>) \<and>
   stored ''u1''
     (snd (add_experiences ''u1'' [(env_ok, (body_only body_experience)), (env_ok, (body_only body_experience_2))] db_alice)) =
     Some (alice\<lparr>experience :=
       [entry_of (env_ok, (body_only body_experience_2)), entry_of (env_ok, (body_only body_experience))] @ experience alice\<rparr>) \<and>
   stored ''u1''
     (snd (add_educations ''u1'' [(env_ok, (body_only body_education)), (env_ok, (body_only body_education_2))] db_alice)) =
     Some (alice\<lparr>education :=
       [entry_of (env_ok, (body_only body_education_2)), entry_of (env_ok, (body_only body_education))] @ education alice\<rparr>)"
proof -
  let ?x1 = "put_experience env_ok ''u1'' (body_only body_experience) db_alice"
  let ?u1 = "put_education env_ok ''u1'' (body_only body_education) db_alice"
  let ?xs = "[(env_ok, (body_only body_experience)), (env_ok, (body_only body_experience_2))]"
  let ?us = "[(env_ok, (body_only body_education)), (env_ok, (body_only body_education_2))]"
  have x1: "fst ?x1 = Response 200
      (Json_profile (alice\<lparr>experience := entry_of (env_ok, (body_only body_experience)) # experience alice\<rparr>))"
    using stored_alice validation_experience by (rule put_experience_alice)
  then have h1: "?x1 = (Response 200
      (Json_profile (alice\<lparr>experience := entry_of (env_ok, (body_only body_experience)) # experience alice\<rparr>)),
      snd ?x1)"
    by (metis prod.collapse)
  have u1: "fst ?u1 = Response 200
      (Json_profile (alice\<lparr>education := entry_of (env_ok, (body_only body_education)) # education alice\<rparr>))"
    using stored_alice validation_education by (rule put_education_alice)
  then have h2: "?u1 = (Response 200
      (Json_profile (alice\<lparr>education := entry_of (env_ok, (body_only body_education)) # education alice\<rparr>)),
      snd ?u1)"
    by (metis prod.collapse)
  note c1 = add_inserts_at_head [of env_ok "''u1''" "body_only body_experience" db_alice _ "snd ?x1"]
  from c1 h1 stored_alice
  have s1: "stored ''u1'' (snd ?x1) =
      Some (alice\<lparr>experience := entry_of (env_ok, (body_only body_experience)) # experience alice\<rparr>)"
    by fastforce
  note c2 = add_inserts_at_head [of env_ok "''u1''" "body_only body_education" db_alice _ "snd ?u1"]
  from c2 h2 stored_alice
  have s2: "stored ''u1'' (snd ?u1) =
      Some (alice\<lparr>education := entry_of (env_ok, (body_only body_education)) # education alice\<rparr>)"
    by fastforce
  have "fst (put_experience env_ok ''u1'' (body_only body_experience_2) (snd ?x1)) = Response 200
      (Json_profile ((alice\<lparr>experience := entry_of (env_ok, (body_only body_experience)) # experience alice\<rparr>)
         \<lparr>experience := entry_of (env_ok, (body_only body_experience_2)) #
            experience (alice\<lparr>experience := entry_of (env_ok, (body_only body_experience)) # experience alice\<rparr>)\<rparr>))"
    using s1 validation_experience_2 by (rule put_experience_alice)
  with x1 have h3: "list_all is_ok (fst (add_experiences ''u1'' ?xs db_alice))"
    by (simp add: add_experiences_Cons is_ok_def del: add_experiences.simps(2))
  have "fst (put_education env_ok ''u1'' (body_only body_education_2) (snd ?u1)) = Response 200
      (Json_profile ((alice\<lparr>education := entry_of (env_ok, (body_only body_education)) # education alice\<rparr>)
         \<lparr>education := entry_of (env_ok, (body_only body_education_2)) #
            education (alice\<lparr>education := entry_of (env_ok, (body_only body_education)) # education alice\<rparr>)\<rparr>))"
    using s2 validation_education_2 by (rule put_education_alice)
  with u1 have h4: "list_all is_ok (fst (add_educations ''u1'' ?us db_alice))"
    by (simp add: add_educations_Cons is_ok_def del: add_educations.simps(2))
  note c3 = add_inserts_at_head [of _ "''u1''" _ db_alice _ _ alice ?xs]
  from c3 stored_alice h3
  have s3: "stored ''u1'' (snd (add_experiences ''u1'' ?xs db_alice)) =
      Some (alice\<lparr>experience := rev (map entry_of ?xs) @ experience alice\<rparr>)"
    by blast
  note c4 = add_inserts_at_head [of _ "''u1''" _ db_alice _ _ alice ?us]
  from c4 stored_alice h4
  have s4: "stored ''u1'' (snd (add_educations ''u1'' ?us db_alice)) =
      Some (alice\<lparr>education := rev (map entry_of ?us) @ education alice\<rparr>)"
    by blast
  from h1 h2 stored_alice h3 h4 s1 s2 s3 s4 show ?thesis by simp
qed

subsection \<open>One profile per owner\<close>

lemma map_user_update_first:
  "(\<And>x. P x \<Longrightarrow> user (f x) = user x) \<Longrightarrow> map user (update_first P f xs) = map user xs"
  by (induction xs) simp_all

lemma user_set_fields: "user (set_fields (profileFields uid b) p) = uid"
  by (simp add: set_fields_def profileFields_def)

lemma user_new_Profile: "user (new_Profile (profileFields uid b)) = uid"
  by (simp add: new_Profile_def profileFields_def)

lemma profiles_of_count: "profiles_of u d = count_list (map user (profiles d)) u"
proof -
  have "length (filter (\<lambda>p. user p = u) ps) = count_list (map user ps) u" for ps
    by (induction ps) simp_all
  then show ?thesis by (simp add: profiles_of_def)
qed

lemma stored_None_profiles_of: "stored uid d = None \<Longrightarrow> profiles_of uid d = 0"
  by (simp add: stored_def profiles_of_def find_None_iff)

text \<open>What an upsert does to the owners of the stored profiles.\<close>

lemma post_profile_users:
  "map user (profiles (snd (post_profile e uid rq d))) = map user (profiles d) \<or>
   (stored uid d = None \<and>
    map user (profiles (snd (post_profile e uid rq d))) = map user (profiles d) @ [uid])"
proof (cases "validationResult post_profile_checks rq = []")
  case False
  then show ?thesis by (simp add: post_profile_def)
next
  case valid: True
  show ?thesis
  proof (cases "Profile_findOne e uid d")
    case (Inl err)
    with valid show ?thesis by (simp add: post_profile_def)
  next
    case (Inr found)
    then have st: "stored uid d = found" by (rule stored_findOne)
    show ?thesis
    proof (cases found)
      case None
      with valid Inr st show ?thesis
        by (cases "fault e Profile_save_op")
           (simp_all add: post_profile_def Profile_save_new_def new_Profile_def profileFields_def)
    next
      case (Some p)
      have "map user (update_first (\<lambda>p. user p = uid) (set_fields (profileFields uid (req_body rq))) (profiles d))
            = map user (profiles d)"
        by (rule map_user_update_first) (simp add: user_set_fields)
      with valid Inr Some show ?thesis
        by (cases "query_error e Profile_findOneAndUpdate_op uid")
           (simp_all add: post_profile_def Profile_findOneAndUpdate_def)
    qed
  qed
qed

lemma post_profile_invariant:
  assumes "\<forall>u. profiles_of u d \<le> 1"
  shows "profiles_of u (snd (post_profile e uid rq d)) \<le> 1"
proof -
  from post_profile_users [of e uid rq d] show ?thesis
  proof
    assume "map user (profiles (snd (post_profile e uid rq d))) = map user (profiles d)"
    then have "profiles_of u (snd (post_profile e uid rq d)) = profiles_of u d"
      by (simp add: profiles_of_count)
    with assms show ?thesis by simp
  next
    assume a: "stored uid d = None \<and>
      map user (profiles (snd (post_profile e uid rq d))) = map user (profiles d) @ [uid]"
    then have c: "profiles_of u (snd (post_profile e uid rq d)) =
        profiles_of u d + (if uid = u then 1 else 0)"
      by (simp add: profiles_of_count)
    from a have "profiles_of uid d = 0" by (simp add: stored_None_profiles_of)
    with c assms show ?thesis by (cases "uid = u") simp_all
  qed
qed

lemma upserts_invariant:
  "\<forall>u. profiles_of u d \<le> 1 \<Longrightarrow> \<forall>u. profiles_of u (upserts rs d) \<le> 1"
proof (induction rs arbitrary: d)
  case Nil
  then show ?case by simp
next
  case (Cons r rs)
  obtain e uid rq where r: "r = (e, uid, rq)" by (cases r)
  from Cons.prems have "\<forall>u. profiles_of u (snd (post_profile e uid rq d)) \<le> 1"
    by (blast intro: post_profile_invariant)
  from Cons.IH [OF this] r show ?case by simp
qed

lemma post_profile_existing_length:
  assumes "0 < profiles_of uid d"
  shows "length (profiles (snd (post_profile e uid rq d))) = length (profiles d)"
proof -
  from post_profile_users [of e uid rq d] assms
  have "map user (profiles (snd (post_profile e uid rq d))) = map user (profiles d)"
    by (auto dest: stored_None_profiles_of)
  then show ?thesis by (rule map_eq_imp_length_eq)
qed

subsection \<open>Looking a profile up by owner id\<close>

text \<open>
  Claim C7. When the lookup of GET api/profile/user/:user_id is not hit by a store
  failure of another kind, and either the supplied id is not castable to an ObjectId (the
  lookup throws a cast error of kind ObjectId) or no stored profile has that owner, the
  handler answers 400 with the message "Profile not found", not 500, and leaves the
  database as it is.
\<close>

theorem get_profile_by_user_not_found:
  assumes "fault e Profile_findOne_op = None"
  shows "(\<not> castable e user_id \<or> stored user_id d = None) \<longrightarrow>
           get_profile_by_user e user_id d = (Response 400 (Json_msg ''Profile not found''), d)"
  using assms
  by (simp add: get_profile_by_user_def Profile_findOne_def query_error_def CastError_def
        stored_def)

theorem get_profile_by_user_not_found_witness:
  "fault env_strict Profile_findOne_op = None \<and>
   \<not> castable env_strict ''not-an-id'' \<and>
   get_profile_by_user env_strict ''not-an-id'' db_alice =
     (Response 400 (Json_msg ''Profile not found''), db_alice) \<and>
   castable env_strict ''5f1d7e3a9c2b4a0017a3b4c5'' \<and>
   stored ''5f1d7e3a9c2b4a0017a3b4c5'' db_alice = None \<and>
   get_profile_by_user env_strict ''5f1d7e3a9c2b4a0017a3b4c5'' db_alice =
     (Response 400 (Json_msg ''Profile not found''), db_alice)"
proof -
  have h: "fault env_strict Profile_findOne_op = None"
    by (simp add: env_strict_def)
  have c1: "\<not> castable env_strict ''not-an-id''"
    by (simp add: env_strict_def)
  have c2: "castable env_strict ''5f1d7e3a9c2b4a0017a3b4c5''"
    by (simp add: env_strict_def)
  have c3: "stored ''5f1d7e3a9c2b4a0017a3b4c5'' db_alice = None"
    by (simp add: stored_def db_alice_def alice_def)
  from get_profile_by_user_not_found [OF h, of "''not-an-id''" db_alice]
       get_profile_by_user_not_found [OF h, of "''5f1d7e3a9c2b4a0017a3b4c5''" db_alice]
       h c1 c2 c3
  show ?thesis by blast
qed

subsection \<open>Validation\<close>











subsection \<open>The skills of an upsert\<close>

lemma split_str_not_Nil: "split_str sep s \<noteq> []"
  by (induction s) (auto split: list.splits)

lemma join_split_str: "join_str sep (split_str sep s) = s"
proof (induction s)
  case Nil
  then show ?case by simp
next
  case (Cons c cs)
  show ?case
  proof (cases "c = sep")
    case True
    obtain t ts where "split_str sep cs = t # ts"
      using split_str_not_Nil [of sep cs] by (cases "split_str sep cs") auto
    with Cons True show ?thesis by simp
  next
    case False
    obtain t ts where ts: "split_str sep cs = t # ts"
      using split_str_not_Nil [of sep cs] by (cases "split_str sep cs") auto
    with Cons have "join_str sep (t # ts) = cs" by simp
    then have "join_str sep ((c # t) # ts) = c # cs"
      by (cases ts) simp_all
    with False ts show ?thesis by simp
  qed
qed

lemma length_split_str: "length (split_str sep s) = Suc (count_list s sep)"
proof (induction s)
  case Nil
  then show ?case by simp
next
  case (Cons c cs)
  obtain t ts where "split_str sep cs = t # ts"
    using split_str_not_Nil [of sep cs] by (cases "split_str sep cs") auto
  with Cons show ?case by auto
qed

lemma split_str_no_sep: "t \<in> set (split_str sep s) \<Longrightarrow> sep \<notin> set t"
proof (induction s arbitrary: t)
  case Nil
  then show ?case by simp
next
  case (Cons c cs)
  obtain u us where us: "split_str sep cs = u # us"
    using split_str_not_Nil [of sep cs] by (cases "split_str sep cs") auto
  show ?case
  proof (cases "c = sep")
    case True
    with Cons.prems have "t = [] \<or> t \<in> set (split_str sep cs)" by simp
    with Cons.IH show ?thesis by auto
  next
    case False
    with Cons.prems us have "t = c # u \<or> t \<in> set us" by simp
    then show ?thesis
    proof
      assume "t = c # u"
      moreover have "sep \<notin> set u" using Cons.IH [of u] us by simp
      ultimately show ?thesis using False by simp
    next
      assume "t \<in> set us"
      then show ?thesis using Cons.IH [of t] us by simp
    qed
  qed
qed

lemma dropWhile_rev_decomp:
  "\<exists>b. s = rev (dropWhile P (rev s)) @ b \<and> list_all P b"
proof -
  have "rev s = takeWhile P (rev s) @ dropWhile P (rev s)" by simp
  then have "s = rev (dropWhile P (rev s)) @ rev (takeWhile P (rev s))"
    by (metis rev_append rev_rev_ident)
  moreover have "list_all P (rev (takeWhile P (rev s)))"
    by (simp add: list_all_iff) (meson set_takeWhileD)
  ultimately show ?thesis by blast
qed

lemma trim_trimmed: "trimmed t (trim t)"
proof -
  let ?m = "dropWhile white_space t"
  have a: "t = takeWhile white_space t @ ?m" by simp
  have wa: "list_all white_space (takeWhile white_space t)"
    by (simp add: list_all_iff) (meson set_takeWhileD)
  from dropWhile_rev_decomp [of ?m white_space] obtain b
    where b: "?m = trim t @ b" "list_all white_space b"
    by (auto simp: trim_def)
  from a b(1) have d: "t = takeWhile white_space t @ trim t @ b" by simp
  have e: "\<not> white_space (hd (trim t)) \<and> \<not> white_space (last (trim t))" if n: "trim t \<noteq> []"
  proof -
    from n have r: "dropWhile white_space (rev ?m) \<noteq> []" by (simp add: trim_def)
    then have "\<not> white_space (hd (dropWhile white_space (rev ?m)))"
      by (rule hd_dropWhile)
    then have l: "\<not> white_space (last (trim t))"
      using r by (simp add: trim_def last_rev)
    from n b(1) have m: "?m \<noteq> []" by auto
    then have "\<not> white_space (hd ?m)" by (rule hd_dropWhile)
    moreover from b(1) n have "hd ?m = hd (trim t)" by (metis hd_append2)
    ultimately show ?thesis using l by simp
  qed
  from d wa b(2) e show ?thesis unfolding trimmed_def by blast
qed

text \<open>
  Claim C4. When the skills field of an upsert is a non-empty string, the projected skills
  are the tokens of the string between its commas, each trimmed of surrounding white
  space, in their order: the tokens joined by commas are the input, no token holds a comma,
  there is one more token than there are commas (so empty tokens stay), and each projected
  skill is its token without the white space around it.
\<close>

theorem skills_split_and_trimmed:
  assumes "b ''skills'' = Some s" and "s \<noteq> []"
  shows "pf_skills (profileFields uid b) = Some (map trim (split_str CHR '','' s)) \<and>
         join_str CHR '','' (split_str CHR '','' s) = s \<and>
         length (split_str CHR '','' s) = Suc (count_list s CHR '','') \<and>
         (\<forall>t \<in> set (split_str CHR '','' s). CHR '','' \<notin> set t \<and> trimmed t (trim t))"
  using assms
  by (simp add: profileFields_def join_split_str length_split_str split_str_no_sep trim_trimmed)

theorem skills_split_and_trimmed_witness:
  "body_upsert ''skills'' = Some ''a, b ,c'' \<and> ''a, b ,c'' \<noteq> [] \<and>
   pf_skills (profileFields ''u1'' body_upsert) = Some [''a'', ''b'', ''c'']"
proof -
  have h1: "body_upsert ''skills'' = Some ''a, b ,c''"
    by (simp add: body_upsert_def)
  have h2: "''a, b ,c'' \<noteq> []"
    by simp
  have "map trim (split_str CHR '','' ''a, b ,c'') = [''a'', ''b'', ''c'']"
    by (simp add: trim_def white_space_def)
  with skills_split_and_trimmed [of body_upsert "''a, b ,c''" "''u1''", OF h1 h2] h1 h2
  show ?thesis by simp
qed

subsection \<open>What an upsert leaves unchanged\<close>


lemma if_set_None: "\<not> truthy v \<Longrightarrow> if_set v = None"
  by (simp add: if_set_def)

lemma set_fields_frame:
  "user (set_fields (profileFields uid b) p) = uid"
  "\<not> truthy (b ''company'') \<Longrightarrow> company (set_fields (profileFields uid b) p) = company p"
  "\<not> truthy (b ''website'') \<Longrightarrow> website (set_fields (profileFields uid b) p) = website p"
  "\<not> truthy (b ''location'') \<Longrightarrow> location (set_fields (profileFields uid b) p) = location p"
  "\<not> truthy (b ''bio'') \<Longrightarrow> bio (set_fields (profileFields uid b) p) = bio p"
  "\<not> truthy (b ''githubusername'') \<Longrightarrow>
     githubusername (set_fields (profileFields uid b) p) = githubusername p"
  "experience (set_fields (profileFields uid b) p) = experience p"
  "education (set_fields (profileFields uid b) p) = education p"
  "social (set_fields (profileFields uid b) p) = pf_social (profileFields uid b)"
  by (simp_all add: set_fields_def profileFields_def if_set_None)

lemma find_update_first_apply:
  "find P xs = Some x \<Longrightarrow> P (f x) \<Longrightarrow> find P (update_first P f xs) = Some (f x)"
  by (induction xs) (auto split: if_splits)

lemma validation_upsert: "validationResult post_profile_checks (body_only body_upsert) = []"
  by (simp add: validationResult_def post_profile_checks_def check_not_empty_def
        field_instances_def locations_def field_path_def toLowerCase_def isEmpty_def
        body_only_def body_upsert_def)

lemma req_body_body_only: "req_body (body_only b) = b"
  by (simp add: body_only_def)

lemma post_profile_update:
  assumes "Profile_findOne e uid d = Inr (Some p)"
      and "fault e Profile_findOneAndUpdate_op = None"
      and "validationResult post_profile_checks rq = []"
  shows "post_profile e uid rq d =
           (Response 200 (Json_profile (set_fields (profileFields uid (req_body rq)) p)),
            d\<lparr>profiles := update_first (\<lambda>q. user q = uid)
                  (set_fields (profileFields uid (req_body rq))) (profiles d)\<rparr>)"
    and "stored uid (snd (post_profile e uid rq d)) =
           Some (set_fields (profileFields uid (req_body rq)) p)"
proof -
  note f = Profile_findOne_SomeD [OF assms(1)]
  from f(1) have c: "castable e uid"
    by (auto simp: query_error_def split: option.splits if_splits)
  with assms(2) have q: "query_error e Profile_findOneAndUpdate_op uid = None"
    by (simp add: query_error_def)
  let ?f = "set_fields (profileFields uid (req_body rq))"
  let ?d = "d\<lparr>profiles := update_first (\<lambda>q. user q = uid) ?f (profiles d)\<rparr>"
  have u: "Profile_findOneAndUpdate e uid (profileFields uid (req_body rq)) d =
      Inr (Some (?f p), ?d)"
    using q f(2) by (simp add: Profile_findOneAndUpdate_def)
  with assms(1,3)
  show r: "post_profile e uid rq d = (Response 200 (Json_profile (?f p)), ?d)"
    by (simp add: post_profile_def json_option_def)
  have "find (\<lambda>q. user q = uid) (update_first (\<lambda>q. user q = uid) ?f (profiles d)) = Some (?f p)"
    using f(2) by (rule find_update_first_apply) (simp add: set_fields_frame(1))
  then show "stored uid (snd (post_profile e uid rq d)) = Some (?f p)"
    by (simp add: r stored_def)
qed





subsection \<open>A second upsert updates the profile\<close>

lemma update_first_append_absent:
  "\<forall>x \<in> set xs. \<not> P x \<Longrightarrow> update_first P f (xs @ ys) = xs @ update_first P f ys"
  by (induction xs) simp_all

lemma filter_update_first:
  "(\<And>x. P x \<Longrightarrow> P (f x)) \<Longrightarrow>
   filter (\<lambda>x. \<not> P x) (update_first P f xs) = filter (\<lambda>x. \<not> P x) xs"
  by (induction xs) simp_all

lemma find_append_absent:
  "find P xs = None \<Longrightarrow> P y \<Longrightarrow> find P (xs @ [y]) = Some y"
  by (induction xs) (auto split: if_splits)

lemma status_set_fields:
  "truthy (b ''status'') \<Longrightarrow> status (set_fields (profileFields uid b) p) = b ''status''"
  by (cases "b ''status''") (simp_all add: set_fields_def profileFields_def if_set_def truthy_def)

lemma post_profile_create:
  assumes "stored uid d = None"
      and "fault e Profile_findOne_op = None" and "castable e uid"
      and "fault e Profile_save_op = None"
      and "validationResult post_profile_checks rq = []"
  shows "post_profile e uid rq d =
           (Response 200 (Json_profile (new_Profile (profileFields uid (req_body rq)))),
            d\<lparr>profiles := profiles d @ [new_Profile (profileFields uid (req_body rq))]\<rparr>)"
proof -
  from assms(1-3) have "Profile_findOne e uid d = Inr None"
    by (simp add: Profile_findOne_def query_error_def stored_def)
  with assms(4,5) show ?thesis
    by (simp add: post_profile_def Profile_save_new_def)
qed

lemma second_upsert_updates:
  assumes "stored uid d = None"
      and "fault e1 Profile_findOne_op = None" and "castable e1 uid"
      and "fault e1 Profile_save_op = None"
      and "validationResult post_profile_checks rq1 = []"
      and "fault e2 Profile_findOne_op = None" and "castable e2 uid"
      and "fault e2 Profile_findOneAndUpdate_op = None"
      and "validationResult post_profile_checks rq2 = []"
  shows "profiles (upserts [(e1, uid, rq1), (e2, uid, rq2)] d) =
           profiles d @ [set_fields (profileFields uid (req_body rq2))
                           (new_Profile (profileFields uid (req_body rq1)))]"
proof -
  let ?n = "new_Profile (profileFields uid (req_body rq1))"
  let ?d1 = "d\<lparr>profiles := profiles d @ [?n]\<rparr>"
  have s1: "post_profile e1 uid rq1 d = (Response 200 (Json_profile ?n), ?d1)"
    using assms(1-5) by (rule post_profile_create)
  from assms(1) have none: "find (\<lambda>q. user q = uid) (profiles d) = None"
    by (simp add: stored_def)
  then have "find (\<lambda>q. user q = uid) (profiles d @ [?n]) = Some ?n"
    by (rule find_append_absent) (simp add: user_new_Profile)
  with assms(6,7) have f2: "Profile_findOne e2 uid ?d1 = Inr (Some ?n)"
    by (simp add: Profile_findOne_def query_error_def)
  note s2 = post_profile_update(1) [OF f2 assms(8,9)]
  from none have "\<forall>x \<in> set (profiles d). \<not> user x = uid"
    by (simp add: find_None_iff)
  then have "update_first (\<lambda>q. user q = uid) (set_fields (profileFields uid (req_body rq2)))
      (profiles d @ [?n]) =
      profiles d @ update_first (\<lambda>q. user q = uid) (set_fields (profileFields uid (req_body rq2))) [?n]"
    by (rule update_first_append_absent)
  with s1 s2 show ?thesis
    by (simp add: user_new_Profile)
qed

text \<open>
  Claim C6. When no owner has more than one profile in the database, no owner has more
  than one after any run of upsert requests, whatever their owners, requests and store
  failures. An upsert for an owner who has a profile leaves the number of stored profiles
  as it is; when it succeeds it answers with that profile updated by the fields of the
  body, stores the updated profile in the place of the old one and leaves the profiles of
  the other owners as they are. Two successful upserts in a row for an owner without a
  profile leave one new profile, the one the first upsert created as updated by the
  second.
\<close>

theorem upserts_keep_one_profile_per_owner:
  assumes "\<forall>u. profiles_of u d \<le> 1"
  shows "profiles_of uid (upserts rs d) \<le> 1 \<and>
         (0 < profiles_of uid d \<longrightarrow>
            length (profiles (snd (post_profile e uid rq d))) = length (profiles d)) \<and>
         (Profile_findOne e uid d = Inr (Some p) \<and>
          fault e Profile_findOneAndUpdate_op = None \<and>
          validationResult post_profile_checks rq = [] \<longrightarrow>
            post_profile e uid rq d =
              (Response 200 (Json_profile (set_fields (profileFields uid (req_body rq)) p)),
               d\<lparr>profiles := update_first (\<lambda>q. user q = uid)
                     (set_fields (profileFields uid (req_body rq))) (profiles d)\<rparr>) \<and>
            stored uid (snd (post_profile e uid rq d)) =
              Some (set_fields (profileFields uid (req_body rq)) p) \<and>
            filter (\<lambda>q. user q \<noteq> uid) (profiles (snd (post_profile e uid rq d))) =
              filter (\<lambda>q. user q \<noteq> uid) (profiles d) \<and>
            (truthy (req_body rq ''status'') \<longrightarrow>
               status (set_fields (profileFields uid (req_body rq)) p) = req_body rq ''status'')) \<and>
         (stored uid d = None \<and>
          fault e1 Profile_findOne_op = None \<and> castable e1 uid \<and>
          fault e1 Profile_save_op = None \<and>
          validationResult post_profile_checks rq1 = [] \<and>
          fault e2 Profile_findOne_op = None \<and> castable e2 uid \<and>
          fault e2 Profile_findOneAndUpdate_op = None \<and>
          validationResult post_profile_checks rq2 = [] \<longrightarrow>
            profiles (upserts [(e1, uid, rq1), (e2, uid, rq2)] d) =
              profiles d @ [set_fields (profileFields uid (req_body rq2))
                              (new_Profile (profileFields uid (req_body rq1)))])"
proof -
  have a: "profiles_of uid (upserts rs d) \<le> 1"
    using upserts_invariant [OF assms, of rs] by blast
  have b: "length (profiles (snd (post_profile e uid rq d))) = length (profiles d)"
    if "0 < profiles_of uid d"
    using that by (rule post_profile_existing_length)
  have c: "post_profile e uid rq d =
        (Response 200 (Json_profile (set_fields (profileFields uid (req_body rq)) p)),
         d\<lparr>profiles := update_first (\<lambda>q. user q = uid)
               (set_fields (profileFields uid (req_body rq))) (profiles d)\<rparr>) \<and>
      stored uid (snd (post_profile e uid rq d)) =
        Some (set_fields (profileFields uid (req_body rq)) p) \<and>
      filter (\<lambda>q. user q \<noteq> uid) (profiles (snd (post_profile e uid rq d))) =
        filter (\<lambda>q. user q \<noteq> uid) (profiles d)"
    if h: "Profile_findOne e uid d = Inr (Some p)"
       "fault e Profile_findOneAndUpdate_op = None"
       "validationResult post_profile_checks rq = []"
  proof -
    note u = post_profile_update [OF h]
    have "filter (\<lambda>q. \<not> user q = uid)
        (update_first (\<lambda>q. user q = uid) (set_fields (profileFields uid (req_body rq))) (profiles d)) =
        filter (\<lambda>q. \<not> user q = uid) (profiles d)"
      by (rule filter_update_first) (simp add: user_set_fields)
    with u show ?thesis by simp
  qed
  have s: "status (set_fields (profileFields uid (req_body rq)) p) = req_body rq ''status''"
    if "truthy (req_body rq ''status'')"
    using that by (rule status_set_fields)
  have t: "profiles (upserts [(e1, uid, rq1), (e2, uid, rq2)] d) =
        profiles d @ [set_fields (profileFields uid (req_body rq2))
                        (new_Profile (profileFields uid (req_body rq1)))]"
    if "stored uid d = None"
       "fault e1 Profile_findOne_op = None" "castable e1 uid"
       "fault e1 Profile_save_op = None"
       "validationResult post_profile_checks rq1 = []"
       "fault e2 Profile_findOne_op = None" "castable e2 uid"
       "fault e2 Profile_findOneAndUpdate_op = None"
       "validationResult post_profile_checks rq2 = []"
    using that by (rule second_upsert_updates)
  from a b c s t show ?thesis by blast
qed

lemma profiles_of_db_alice: "profiles_of u db_alice \<le> 1"
  by (simp add: profiles_of_def db_alice_def)

lemma validation_upsert_2: "validationResult post_profile_checks (body_only body_upsert_2) = []"
  by (simp add: validationResult_def post_profile_checks_def check_not_empty_def
        field_instances_def locations_def field_path_def toLowerCase_def isEmpty_def
        body_only_def body_upsert_2_def)

theorem upserts_keep_one_profile_per_owner_witness:
  "(\<forall>u. profiles_of u db_alice \<le> 1) \<and> 0 < profiles_of ''u1'' db_alice \<and>
   Profile_findOne env_ok ''u1'' db_alice = Inr (Some alice) \<and>
   fault env_ok Profile_findOne_op = None \<and> castable env_ok ''u2'' \<and>
   fault env_ok Profile_save_op = None \<and>
   fault env_ok Profile_findOneAndUpdate_op = None \<and>
   validationResult post_profile_checks (body_only body_upsert) = [] \<and>
   validationResult post_profile_checks (body_only body_upsert_2) = [] \<and>
   truthy (req_body (body_only body_upsert) ''status'') \<and>
   stored ''u2'' db_alice = None \<and>
   profiles_of ''u1''
     (upserts [(env_ok, ''u1'', body_only body_upsert), (env_ok, ''u2'', body_only body_upsert),
               (env_ok, ''u1'', body_only body_upsert)] db_alice) \<le> 1 \<and>
   length (profiles (snd (post_profile env_ok ''u1'' (body_only body_upsert) db_alice))) =
     length (profiles db_alice) \<and>
   post_profile env_ok ''u1'' (body_only body_upsert) db_alice =
     (Response 200
        (Json_profile (set_fields (profileFields ''u1'' (req_body (body_only body_upsert))) alice)),
      db_alice\<lparr>profiles := update_first (\<lambda>q. user q = ''u1'')
         (set_fields (profileFields ''u1'' (req_body (body_only body_upsert))))
         (profiles db_alice)\<rparr>) \<and>
   status (set_fields (profileFields ''u1'' (req_body (body_only body_upsert))) alice) =
     Some ''Senior Developer'' \<and>
   profiles (upserts [(env_ok, ''u2'', body_only body_upsert),
                      (env_ok, ''u2'', body_only body_upsert_2)] db_alice) =
     profiles db_alice @
       [set_fields (profileFields ''u2'' (req_body (body_only body_upsert_2)))
          (new_Profile (profileFields ''u2'' (req_body (body_only body_upsert))))] \<and>
   map status (profiles (upserts [(env_ok, ''u2'', body_only body_upsert),
                                  (env_ok, ''u2'', body_only body_upsert_2)] db_alice)) =
     [Some ''Developer'', Some ''Manager'']"
proof -
  have h1: "\<forall>u. profiles_of u db_alice \<le> 1"
    by (blast intro: profiles_of_db_alice)
  have h2: "0 < profiles_of ''u1'' db_alice"
    by (simp add: profiles_of_def db_alice_def alice_def)
  have e: "fault env_ok Profile_findOne_op = None" "castable env_ok ''u2''"
      "fault env_ok Profile_save_op = None" "fault env_ok Profile_findOneAndUpdate_op = None"
    by (simp_all add: env_ok_def)
  have t: "truthy (req_body (body_only body_upsert) ''status'')"
    by (simp add: req_body_body_only truthy_def body_upsert_def)
  have n: "stored ''u2'' db_alice = None"
    by (simp add: stored_def db_alice_def alice_def)
  note c1 = upserts_keep_one_profile_per_owner
    [OF h1, of "''u1''"
       "[(env_ok, ''u1'', body_only body_upsert), (env_ok, ''u2'', body_only body_upsert),
         (env_ok, ''u1'', body_only body_upsert)]"
       env_ok "body_only body_upsert" alice]
  note c2 = upserts_keep_one_profile_per_owner
    [OF h1, of "''u2''" _ _ _ _ env_ok "body_only body_upsert" env_ok "body_only body_upsert_2"]
  from c1 h2 findOne_alice e(4) validation_upsert t
  have r1: "profiles_of ''u1''
     (upserts [(env_ok, ''u1'', body_only body_upsert), (env_ok, ''u2'', body_only body_upsert),
               (env_ok, ''u1'', body_only body_upsert)] db_alice) \<le> 1"
    and r2: "length (profiles (snd (post_profile env_ok ''u1'' (body_only body_upsert) db_alice))) =
     length (profiles db_alice)"
    and r3: "post_profile env_ok ''u1'' (body_only body_upsert) db_alice =
     (Response 200
        (Json_profile (set_fields (profileFields ''u1'' (req_body (body_only body_upsert))) alice)),
      db_alice\<lparr>profiles := update_first (\<lambda>q. user q = ''u1'')
         (set_fields (profileFields ''u1'' (req_body (body_only body_upsert))))
         (profiles db_alice)\<rparr>)"
    and r4: "status (set_fields (profileFields ''u1'' (req_body (body_only body_upsert))) alice) =
     req_body (body_only body_upsert) ''status''"
    by blast+
  from c2 n e validation_upsert validation_upsert_2
  have r5: "profiles (upserts [(env_ok, ''u2'', body_only body_upsert),
                      (env_ok, ''u2'', body_only body_upsert_2)] db_alice) =
     profiles db_alice @
       [set_fields (profileFields ''u2'' (req_body (body_only body_upsert_2)))
          (new_Profile (profileFields ''u2'' (req_body (body_only body_upsert))))]"
    by blast
  have r6: "status (set_fields (profileFields ''u1'' (req_body (body_only body_upsert))) alice) =
     Some ''Senior Developer''"
    using r4 by (simp add: req_body_body_only body_upsert_def)
  have "status (set_fields (profileFields ''u2'' (req_body (body_only body_upsert_2)))
          (new_Profile (profileFields ''u2'' (req_body (body_only body_upsert))))) = Some ''Manager''"
    by (simp add: status_set_fields req_body_body_only truthy_def body_upsert_2_def)
  then have r7: "map status (profiles (upserts [(env_ok, ''u2'', body_only body_upsert),
                                  (env_ok, ''u2'', body_only body_upsert_2)] db_alice)) =
     [Some ''Developer'', Some ''Manager'']"
    by (simp only: r5) (simp add: db_alice_def alice_def)
  from h1 h2 findOne_alice e validation_upsert validation_upsert_2 t n r1 r2 r3 r5 r6 r7
  show ?thesis by simp
qed

subsection \<open>The github proxy\<close>

lemma get_github_configured:
  assumes "config ''githubClientId'' = Some cid" and "config ''githubClientSecret'' = Some csecret"
  shows "fst (get_github config net parses username) =
           [\<lparr>uri = github_uri username cid csecret, request_method = ''GET'',
             headers = [(''user-agent'', ''node.js'')]\<rparr>]"
  using assms by (simp add: get_github_def config_get_def Let_def)

lemma github_callback_not_200:
  "statusCode \<noteq> 200 \<Longrightarrow>
   github_callback parses (Reply statusCode b) = Response 404 (Json_msg ''No Github Profile found'')"
  by (simp add: github_callback_def)

text \<open>
  Claim C9 at a concrete request: the client id is abc, the client secret is xyz, the
  username is octocat and the upstream answers 404. The handler issues one request and
  answers 404, and the query of the request asks for five results per page and carries
  the client id; but its parameters are the four below: the value of \<open>sort\<close> is not
  \<open>created\<close>, and there is no parameter \<open>client_secret\<close> with the secret as its value.
\<close>

theorem github_query_lacks_client_secret:
  "get_github config_github net_404 parses_all ''octocat'' =
     ([\<lparr>uri = github_uri ''octocat'' ''abc'' ''xyz'', request_method = ''GET'',
        headers = [(''user-agent'', ''node.js'')]\<rparr>],
      Response 404 (Json_msg ''No Github Profile found'')) \<and>
   query_params (github_uri ''octocat'' ''abc'' ''xyz'') =
     [''per_page=5'', ''sort=created: '' @ [CHR 0x0A] @ ''            asc'', ''client_id=abc'',
      ''client_secretxyz''] \<and>
   carries (github_uri ''octocat'' ''abc'' ''xyz'') ''per_page'' ''5'' \<and>
   carries (github_uri ''octocat'' ''abc'' ''xyz'') ''client_id'' ''abc'' \<and>
   \<not> carries (github_uri ''octocat'' ''abc'' ''xyz'') ''sort'' ''created'' \<and>
   \<not> carries (github_uri ''octocat'' ''abc'' ''xyz'') ''client_secret'' ''xyz''"
proof -
  have q: "query_params (github_uri ''octocat'' ''abc'' ''xyz'') =
     [''per_page=5'', ''sort=created: '' @ [CHR 0x0A] @ ''            asc'', ''client_id=abc'',
      ''client_secretxyz'']"
    by (simp add: query_params_def github_uri_def)
  have g: "get_github config_github net_404 parses_all ''octocat'' =
     ([\<lparr>uri = github_uri ''octocat'' ''abc'' ''xyz'', request_method = ''GET'',
        headers = [(''user-agent'', ''node.js'')]\<rparr>],
      Response 404 (Json_msg ''No Github Profile found''))"
    by (simp add: get_github_def config_get_def config_github_def net_404_def
          github_callback_def Let_def)
  show ?thesis
    unfolding carries_def q using g by simp
qed

subsection \<open>Store failures\<close>

text \<open>
  Claim C10 at two concrete requests: \<open>Profile.find\<close> throws during GET api/profile, and
  \<open>Post.deleteMany\<close> throws during DELETE api/profile. In both the catch block calls
  \<open>console.err\<close>, which throws, so no response is sent and the exception leaves the handler.
\<close>

theorem store_failure_escapes_handler:
  "get_profiles env_find_throws db_alice =
     (Uncaught (TypeError ''console.err is not a function''), db_alice) \<and>
   delete_profile env_deleteMany_throws ''u1'' db_alice =
     (Uncaught (TypeError ''console.err is not a function''), db_alice)"
  by (simp add: get_profiles_def Profile_find_def env_find_throws_def console_err_def
        delete_profile_def Post_deleteMany_def query_error_def env_deleteMany_throws_def)

text \<open>
  The handlers whose catch blocks call \<open>console.error\<close> answer 500 with the plain text
  "Server Error" when their first store operation throws; the by-owner-id lookup does so
  for every error whose kind is not ObjectId.
\<close>

lemma findOne_failure_caught:
  assumes "fault e Profile_findOne_op = Some err"
  shows "get_me e uid d = (Response 500 (Send ''Server Error''), d)"
    and "validationResult post_profile_checks rq = [] \<Longrightarrow>
           post_profile e uid rq d = (Response 500 (Send ''Server Error''), d)"
    and "validationResult put_experience_checks rq = [] \<Longrightarrow>
           put_experience e uid rq d = (Response 500 (Send ''Server Error''), d)"
    and "validationResult put_education_checks rq = [] \<Longrightarrow>
           put_education e uid rq d = (Response 500 (Send ''Server Error''), d)"
    and "delete_experience e uid t d = (Response 500 (Send ''Server Error''), d)"
    and "delete_education e uid t d = (Response 500 (Send ''Server Error''), d)"
    and "kind err \<noteq> Some ''ObjectId'' \<Longrightarrow>
           get_profile_by_user e uid d = (Response 500 (Send ''Server Error''), d)"
  using assms
  by (simp_all add: get_me_def post_profile_def put_experience_def put_education_def
        delete_experience_def delete_education_def get_profile_by_user_def
        Profile_findOne_def query_error_def Server_Error_def)

end
